theory Spec2Isabelle
  imports Complex_Main
begin

section \<open>Data model\<close>

text \<open>
  The embedding follows \<^verbatim>\<open>src/code/functions.py\<close>.  A one-dimensional numpy array is a
  list of reals, a two-dimensional array is the list of its rows.  Floating-point
  numbers are idealised as reals; the one place where the control flow of the source
  depends on an IEEE special value (the quotient \<^verbatim>\<open>0/0\<close> in the convergence test of
  \<^verbatim>\<open>get_epidemic_size\<close>) is written out.  A date is the number of its day, so that
  \<^verbatim>\<open>(tnew - t).days\<close> is a difference of integers.  Every \<^verbatim>\<open>raise\<close> of the source, and
  every exception of the Python run time that a property below depends on, is a value of the
  type \<open>error\<close>.
\<close>

type_synonym vec = "real list"
type_synonym matrix = "real list list"
type_synonym date = int

datatype error =
    ValueError string
  | KeyError string
  | IndexError
  | UnboundLocalError
  | ZeroDivisionError

text \<open>\<^verbatim>\<open>B.shape[0]\<close> and \<^verbatim>\<open>B.shape[1]\<close> of a two-dimensional array.\<close>

definition shape0 :: "matrix \<Rightarrow> nat" where
  "shape0 B = length B"

definition shape1 :: "matrix \<Rightarrow> nat" where
  "shape1 B = (case B of [] \<Rightarrow> 0 | row # _ \<Rightarrow> length row)"

text \<open>\<^verbatim>\<open>x*M\<close> and \<^verbatim>\<open>B*scales[i-1]\<close>: a matrix times a scalar.\<close>

definition smult :: "real \<Rightarrow> matrix \<Rightarrow> matrix" where
  "smult x M = map (map (\<lambda>m. x * m)) M"

section \<open>SIR right-hand side\<close>

text \<open>\<^verbatim>\<open>X.reshape((2,N))\<close> raises unless \<open>X\<close> has \<open>2N\<close> entries.\<close>

definition sir_X_to_SI :: "vec \<Rightarrow> nat \<Rightarrow> error + (vec \<times> vec)" where
  "sir_X_to_SI X N =
     (if length X = 2 * N then Inr (take N X, drop N X)
      else Inl (ValueError ''cannot reshape array''))"

text \<open>
  \<^verbatim>\<open>sir_SI_to_X\<close> flattens the pair with the array module of its first argument, found by
  \<^verbatim>\<open>cp.get_array_module(S)\<close>.  That call needs \<^verbatim>\<open>cupy\<close> to be importable: where it is not,
  \<^verbatim>\<open>cp\<close> is \<^verbatim>\<open>None\<close> and the call raises \<^verbatim>\<open>AttributeError\<close>, whatever the arguments are.
  This depends on the installation and not on the arguments; the model is of an
  installation with \<^verbatim>\<open>cupy\<close>, where the result is the concatenation.
\<close>

definition sir_SI_to_X :: "vec \<Rightarrow> vec \<Rightarrow> vec" where
  "sir_SI_to_X S I = S @ I"

text \<open>\<^verbatim>\<open>np.einsum('i,ij,j->i', S, B, I)\<close>.\<close>

definition einsum_i_ij_j :: "vec \<Rightarrow> matrix \<Rightarrow> vec \<Rightarrow> vec" where
  "einsum_i_ij_j S B I =
     map2 (\<lambda>s row. sum_list (map2 (\<lambda>b i. s * b * i) row I)) S B"

definition func_sir_dX :: "real \<Rightarrow> vec \<Rightarrow> matrix \<Rightarrow> real \<Rightarrow> error + vec" where
  "func_sir_dX t X B g =
     (let N = shape0 B in
      case sir_X_to_SI X N of
        Inl e \<Rightarrow> Inl e
      | Inr (S, I) \<Rightarrow>
          if \<not> list_all (\<lambda>row. length row = N) B
          then Inl (ValueError ''einsum: operands could not be broadcast together'')
          else
            let dS = map uminus (einsum_i_ij_j S B I);
                dI = map2 (\<lambda>ds i. - ds - g * i) dS I
            in Inr (sir_SI_to_X dS dI))"

section \<open>Infectivity matrix\<close>

text \<open>
  \<^verbatim>\<open>get_infectivity_matrix(F)\<close>.  The entry \<open>(i, j)\<close> of a matrix given as its rows is
  \<open>F ! i ! j\<close>; \<^verbatim>\<open>F.T\<close> is built entry by entry, \<^verbatim>\<open>np.fill_diagonal(L, pvec)\<close> overwrites
  the diagonal, and \<^verbatim>\<open>np.einsum('ij,i->ij', L, pinv)\<close> scales row \<open>i\<close> by \<open>pinv\<^sub>i\<close>.
\<close>

definition diagonal :: "matrix \<Rightarrow> vec" where
  "diagonal F = map (\<lambda>i. F ! i ! i) [0..<length F]"

definition transpose_sq :: "nat \<Rightarrow> matrix \<Rightarrow> matrix" where
  "transpose_sq N L = map (\<lambda>i. map (\<lambda>j. L ! j ! i) [0..<N]) [0..<N]"

definition madd :: "matrix \<Rightarrow> matrix \<Rightarrow> matrix" where
  "madd A B = map2 (map2 (+)) A B"

definition fill_diagonal :: "matrix \<Rightarrow> vec \<Rightarrow> matrix" where
  "fill_diagonal L pvec = map (\<lambda>i. (L ! i)[i := pvec ! i]) [0..<length L]"

definition einsum_ij_i :: "matrix \<Rightarrow> vec \<Rightarrow> matrix" where
  "einsum_ij_i L pinv = map2 (\<lambda>row p. map (\<lambda>l. l * p) row) L pinv"

definition get_infectivity_matrix :: "matrix \<Rightarrow> error + matrix" where
  "get_infectivity_matrix F =
     (let N = shape0 F in
      if shape1 F \<noteq> N then Inl (ValueError [])
      else
        let pvec = diagonal F;
            pinv = map (\<lambda>p. if p > 0 then 1 / p else 0) pvec;
            L = madd F (transpose_sq N F);
            L = fill_diagonal L pvec;
            L = einsum_ij_i L pinv;
            L = smult (1 / 2) (madd L (transpose_sq N L))
        in Inr L)"

text \<open>
  The normalisation as the specification words it, entry by entry: \<open>p\<^sub>i = F\<^sub>i\<^sub>i\<close>; its
  inverse where \<open>p\<^sub>i > 0\<close> and \<open>0\<close> otherwise; \<open>L = F + F\<^sup>T\<close> with the diagonal replaced by
  \<open>p\<close>; row \<open>i\<close> scaled by the inverse of \<open>p\<^sub>i\<close>; the result \<open>0.5 (L + L\<^sup>T)\<close>.
\<close>

definition spec_p :: "matrix \<Rightarrow> nat \<Rightarrow> real" where
  "spec_p F i = F ! i ! i"

definition spec_pinv :: "matrix \<Rightarrow> nat \<Rightarrow> real" where
  "spec_pinv F i = (if spec_p F i > 0 then 1 / spec_p F i else 0)"

definition spec_L :: "matrix \<Rightarrow> nat \<Rightarrow> nat \<Rightarrow> real" where
  "spec_L F i j = (if i = j then spec_p F i else F ! i ! j + F ! j ! i)"

definition spec_scaled :: "matrix \<Rightarrow> nat \<Rightarrow> nat \<Rightarrow> real" where
  "spec_scaled F i j = spec_pinv F i * spec_L F i j"

definition spec_infectivity :: "matrix \<Rightarrow> nat \<Rightarrow> nat \<Rightarrow> real" where
  "spec_infectivity F i j = 0.5 * (spec_scaled F i j + spec_scaled F j i)"

section \<open>Epidemic size\<close>

text \<open>\<^verbatim>\<open>np.linalg.norm\<close> of a vector, \<^verbatim>\<open>np.einsum('ab,b', M, B)\<close>, and the vector
  \<^verbatim>\<open>B = 1. - (1.-epsilon_i)*np.exp(-X)\<close>.\<close>

definition norm2 :: "vec \<Rightarrow> real" where
  "norm2 v = sqrt (sum_list (map (\<lambda>x. x * x) v))"

definition einsum_ab_b :: "matrix \<Rightarrow> vec \<Rightarrow> vec" where
  "einsum_ab_b M B = map (\<lambda>row. sum_list (map2 (*) row B)) M"

definition infected_B :: "vec \<Rightarrow> vec \<Rightarrow> vec" where
  "infected_B epsilon_i X = map2 (\<lambda>e x. 1 - (1 - e) * exp (- x)) epsilon_i X"

text \<open>
  The loop \<^verbatim>\<open>for iter in range(itermax)\<close>, by the number of passes left.  Its state is
  the number of passes made (\<^verbatim>\<open>iter + 1\<close>), \<^verbatim>\<open>X\<close> (unbound before the first pass: \<open>None\<close>)
  and \<^verbatim>\<open>Xnew\<close>.  \<^verbatim>\<open>1./gamma\<close> raises for a Python zero.  Both norms vanish only when
  \<^verbatim>\<open>X\<close> and \<^verbatim>\<open>Xnew\<close> are zero vectors; then \<^verbatim>\<open>rtol\<close> is \<^verbatim>\<open>0/0 = nan\<close>, the test
  \<^verbatim>\<open>rtol < rtol_stop\<close> is false and the loop goes on.  The message printed in the last
  pass changes nothing of the result.
\<close>

definition fp_step :: "matrix \<Rightarrow> vec \<Rightarrow> real \<Rightarrow> vec \<Rightarrow> vec" where
  "fp_step M epsilon_i gamma X =
     map (\<lambda>v. 1 / gamma * v) (einsum_ab_b M (infected_B epsilon_i X))"

definition rtol_below :: "vec \<Rightarrow> vec \<Rightarrow> real \<Rightarrow> bool" where
  "rtol_below X Xnew rtol_stop =
     (let num = norm2 (map2 (-) X Xnew);
          den = norm2 X + norm2 Xnew
      in den \<noteq> 0 \<and> num / den * 2 < rtol_stop)"

fun epidemic_loop ::
  "matrix \<Rightarrow> vec \<Rightarrow> real \<Rightarrow> real \<Rightarrow> nat \<Rightarrow> nat \<times> vec option \<times> vec
     \<Rightarrow> error + (nat \<times> vec option \<times> vec)"
where
  "epidemic_loop M epsilon_i gamma rtol_stop 0 st = Inr st"
| "epidemic_loop M epsilon_i gamma rtol_stop (Suc n) (k, Xold, Xnew) =
     (let X = Xnew in
      if gamma = 0 then Inl ZeroDivisionError
      else
        let Xnew' = fp_step M epsilon_i gamma X
        in if rtol_below X Xnew' rtol_stop then Inr (Suc k, Some X, Xnew')
           else epidemic_loop M epsilon_i gamma rtol_stop n (Suc k, Some X, Xnew'))"

text \<open>
  After the loop the source computes \<^verbatim>\<open>B\<close> from \<^verbatim>\<open>X\<close>, not from \<^verbatim>\<open>Xnew\<close>; with
  \<^verbatim>\<open>itermax = 0\<close> the name \<^verbatim>\<open>X\<close> was never bound.  For \<open>N = 0\<close> the quotient of the
  source is \<^verbatim>\<open>nan\<close>, which the reals do not have: the properties of the value are
  stated for \<open>N > 0\<close>.
\<close>

definition get_epidemic_size :: "matrix \<Rightarrow> vec \<Rightarrow> real \<Rightarrow> nat \<Rightarrow> real \<Rightarrow> error + real" where
  "get_epidemic_size M epsilon_i gamma itermax rtol_stop =
     (let N = shape0 M in
      if shape1 M \<noteq> N then Inl (ValueError [])
      else if length epsilon_i \<noteq> N then Inl (ValueError [])
      else
        (case epidemic_loop M epsilon_i gamma rtol_stop itermax (0, None, replicate N 0) of
           Inl e \<Rightarrow> Inl e
         | Inr (k, None, Xnew) \<Rightarrow> Inl UnboundLocalError
         | Inr (k, Some X, Xnew) \<Rightarrow> Inr (sum_list (infected_B epsilon_i X) / real N)))"


section \<open>Scale for a target epidemic size\<close>

text \<open>
  \<^verbatim>\<open>scipy.optimize.root_scalar\<close> is not code of this repository: it is a parameter, a
  function of the function to zero and of the two ends of the bracket that raises or
  returns a result with the fields \<^verbatim>\<open>converged\<close> and \<^verbatim>\<open>root\<close>.
\<close>

record root_result =
  sol_converged :: bool
  sol_root :: real

type_synonym root_finder = "(real \<Rightarrow> error + real) \<Rightarrow> real \<Rightarrow> real \<Rightarrow> error + root_result"

text \<open>
  The bracketing loops of \<^verbatim>\<open>get_target_scale\<close> and \<^verbatim>\<open>fit_sir\<close> have one shape:
  \<^verbatim>\<open>for k in range(..): f = func_root(x); if f > 0: break; else: x *= factor\<close>.  The state
  is the upper end and the last value of \<^verbatim>\<open>func_root\<close> (unbound before the first pass).
\<close>

fun bracket_loop ::
  "(real \<Rightarrow> error + real) \<Rightarrow> real \<Rightarrow> nat \<Rightarrow> real \<Rightarrow> real option \<Rightarrow> error + (real \<times> real option)"
where
  "bracket_loop func_root factor 0 x f = Inr (x, f)"
| "bracket_loop func_root factor (Suc n) x fprev =
     (case func_root x of
        Inl e \<Rightarrow> Inl e
      | Inr f \<Rightarrow>
          if f > 0 then Inr (x, Some f)
          else bracket_loop func_root factor n (x * factor) (Some f))"

definition target_func_root ::
  "matrix \<Rightarrow> vec \<Rightarrow> real \<Rightarrow> real \<Rightarrow> real \<Rightarrow> nat \<Rightarrow> real \<Rightarrow> error + real" where
  "target_func_root M Ii gamma target rtol_stop itermax x =
     (case get_epidemic_size (smult x M) Ii gamma itermax rtol_stop of
        Inl e \<Rightarrow> Inl e
      | Inr Omega \<Rightarrow> Inr (Omega - target))"

text \<open>The epidemic size at the scale \<open>x\<close>, where \<open>get_epidemic_size\<close> returns one.\<close>

definition epidemic_size_at :: "matrix \<Rightarrow> vec \<Rightarrow> real \<Rightarrow> nat \<Rightarrow> real \<Rightarrow> real \<Rightarrow> real" where
  "epidemic_size_at M Ii gamma itermax rtol_stop x =
     (case get_epidemic_size (smult x M) Ii gamma itermax rtol_stop of
        Inl e \<Rightarrow> 0
      | Inr Omega \<Rightarrow> Omega)"

definition get_target_scale ::
  "root_finder \<Rightarrow> matrix \<Rightarrow> vec \<Rightarrow> real \<Rightarrow> real \<Rightarrow> real \<Rightarrow> nat \<Rightarrow> error + real" where
  "get_target_scale root_scalar M Ii gamma target rtol_stop itermax =
     (let func_root = target_func_root M Ii gamma target rtol_stop itermax;
          xlo = 1 / 10 ^ 5
      in case func_root xlo of
           Inl e \<Rightarrow> Inl e
         | Inr flo \<Rightarrow>
             if flo > 0 then Inl (ValueError ''Lower bound on scale not small enough!'')
             else
               (case bracket_loop func_root 10 10 xlo None of
                  Inl e \<Rightarrow> Inl e
                | Inr (xhi, None) \<Rightarrow> Inl UnboundLocalError
                | Inr (xhi, Some fhi) \<Rightarrow>
                    if fhi < 0 then Inl (ValueError ''Problem in bracketing!'')
                    else
                      (case root_scalar func_root xlo xhi of
                         Inl e \<Rightarrow> Inl e
                       | Inr sol \<Rightarrow> Inr (sol_root sol))))"

section \<open>Day-stepped integration\<close>

text \<open>
  \<^verbatim>\<open>scipy.integrate.solve_ivp\<close> is a parameter as well: a function of the right-hand
  side, the initial state \<^verbatim>\<open>y0\<close>, the end \<^verbatim>\<open>dt\<close> of \<^verbatim>\<open>t_span = (0,dt)\<close> and the sample
  times \<^verbatim>\<open>t_eval\<close>, which raises or returns a result with the fields \<^verbatim>\<open>success\<close>
  and \<^verbatim>\<open>y\<close>; \<open>sol_y\<close> is the list of the columns of \<^verbatim>\<open>sol.y\<close>, one state per sample.
  The solver method is part of that parameter.  What is printed under \<^verbatim>\<open>verbose\<close>
  is not modelled.
\<close>

record ode_result =
  sol_success :: bool
  sol_y :: "vec list"

type_synonym ivp_solver =
  "(real \<Rightarrow> vec \<Rightarrow> error + vec) \<Rightarrow> vec \<Rightarrow> real \<Rightarrow> real list \<Rightarrow> error + ode_result"

text \<open>
  The store is a map from keys to matrices.  The key of a date is
  \<^verbatim>\<open>str(Path(path) / t.strftime(tfmt))\<close>; the formatting of a date is the parameter
  \<open>tfmt\<close>, a function from dates to strings.
\<close>

type_synonym store = "string \<rightharpoonup> matrix"

definition store_key :: "string \<Rightarrow> (date \<Rightarrow> string) \<Rightarrow> date \<Rightarrow> string" where
  "store_key path tfmt t = path @ ''/'' @ tfmt t"

definition read_df :: "date \<Rightarrow> (date \<Rightarrow> string) \<Rightarrow> store \<Rightarrow> string \<Rightarrow> error + matrix" where
  "read_df t tfmt store path =
     (let key = store_key path tfmt t
      in case store key of None \<Rightarrow> Inl (KeyError key) | Some df \<Rightarrow> Inr df)"

text \<open>
  The head of each pass of the two day loops:
  \<^verbatim>\<open>if mykey in store.keys(): B = read_df(...)\<close>, else \<^verbatim>\<open>B\<close> stays.
\<close>

definition refresh_B ::
  "store \<Rightarrow> string \<Rightarrow> (date \<Rightarrow> string) \<Rightarrow> date \<Rightarrow> matrix \<Rightarrow> error + matrix" where
  "refresh_B store pathtoloc tfmt t B =
     (if store (store_key pathtoloc tfmt t) \<noteq> None then read_df t tfmt store pathtoloc
      else Inr B)"

text \<open>\<^verbatim>\<open>np.arange(dt+1)\<close>, empty for a negative \<open>dt\<close>, and the days
  \<^verbatim>\<open>[t + datetime.timedelta(days=int(x)) for x in t_range[1:]]\<close>.\<close>

definition arange :: "int \<Rightarrow> real list" where
  "arange n = map real_of_int [0..n - 1]"

definition days_after :: "date \<Rightarrow> int \<Rightarrow> date list" where
  "days_after t dt = map (\<lambda>k. t + k) [1..dt]"

text \<open>
  The loop \<^verbatim>\<open>for i in range(1, nt)\<close> of \<^verbatim>\<open>integrate_sir\<close>, over the pairs
  \<^verbatim>\<open>(times[i], scales[i-1])\<close>.  \<^verbatim>\<open>sol.y[:,-1]\<close> raises on a result with no column.
\<close>

fun integrate_loop ::
  "ivp_solver \<Rightarrow> real \<Rightarrow> store \<Rightarrow> string \<Rightarrow> (date \<Rightarrow> string) \<Rightarrow> (date \<times> real) list
     \<Rightarrow> date \<Rightarrow> vec \<Rightarrow> matrix \<Rightarrow> date list \<Rightarrow> vec list \<Rightarrow> error + (date list \<times> vec list)"
where
  "integrate_loop solve_ivp gamma store pathtoloc tfmt [] t X B ts Xs = Inr (ts, Xs)"
| "integrate_loop solve_ivp gamma store pathtoloc tfmt ((tnew, scale) # rest) t X B ts Xs =
     (case refresh_B store pathtoloc tfmt t B of
        Inl e \<Rightarrow> Inl e
      | Inr B \<Rightarrow>
          let dt = tnew - t;
              t_range = arange (dt + 1)
          in (case solve_ivp (\<lambda>t X. func_sir_dX t X (smult scale B) gamma) X
                     (real_of_int dt) t_range of
                Inl e \<Rightarrow> Inl e
              | Inr sol \<Rightarrow>
                  if \<not> sol_success sol then Inl (ValueError ''integration failed!'')
                  else if sol_y sol = [] then Inl IndexError
                  else
                    integrate_loop solve_ivp gamma store pathtoloc tfmt rest
                      tnew (last (sol_y sol)) B
                      (ts @ days_after t dt) (Xs @ tl (sol_y sol))))"

text \<open>\<^verbatim>\<open>[sir_X_to_SI(x, N) for x in Xs]\<close>: the first state that does not reshape raises.\<close>

fun sir_split_all :: "vec list \<Rightarrow> nat \<Rightarrow> error + (vec \<times> vec) list" where
  "sir_split_all [] N = Inr []"
| "sir_split_all (x # xs) N =
     (case sir_X_to_SI x N of
        Inl e \<Rightarrow> Inl e
      | Inr si \<Rightarrow>
          (case sir_split_all xs N of
             Inl e \<Rightarrow> Inl e
           | Inr sis \<Rightarrow> Inr (si # sis)))"

text \<open>The message of the length check carries \<^verbatim>\<open>nt-1\<close> in decimal.\<close>

fun decimal :: "nat \<Rightarrow> string" where
  "decimal n =
     (if n < 10 then [''0123456789'' ! n]
      else decimal (n div 10) @ [''0123456789'' ! (n mod 10)])"

definition integrate_sir ::
  "ivp_solver \<Rightarrow> vec \<Rightarrow> date list \<Rightarrow> real list \<Rightarrow> real \<Rightarrow> store \<Rightarrow> string \<Rightarrow> (date \<Rightarrow> string)
     \<Rightarrow> error + (date list \<times> vec list \<times> vec list)" where
  "integrate_sir solve_ivp Xi times_list scales gamma store pathtoloc tfmt =
     (case times_list of
        [] \<Rightarrow> Inl IndexError
      | t # later \<Rightarrow>
          (case read_df t tfmt store pathtoloc of
             Inl e \<Rightarrow> Inl e
           | Inr B \<Rightarrow>
               let N = shape0 B
               in if length scales \<noteq> length times_list - 1
                  then Inl (ValueError (''`scales` must be of length '' @ decimal (length times_list - 1)))
                  else
                    (case integrate_loop solve_ivp gamma store pathtoloc tfmt
                            (zip later scales) t Xi B [t] [Xi] of
                       Inl e \<Rightarrow> Inl e
                     | Inr (ts, Xs) \<Rightarrow>
                         (case sir_split_all Xs N of
                            Inl e \<Rightarrow> Inl e
                          | Inr SIs \<Rightarrow> Inr (ts, map fst SIs, map snd SIs)))))"

section \<open>Fitting the scales\<close>

text \<open>
  \<^verbatim>\<open>get_sir_omega_X(X, P)\<close>: \<^verbatim>\<open>X.reshape(2, N)\<close> with \<^verbatim>\<open>N = len(P)\<close> raises unless \<open>X\<close> has
  \<open>2N\<close> entries; the quotient is a numpy one and does not raise.
\<close>

definition get_sir_omega_X :: "vec \<Rightarrow> vec \<Rightarrow> error + real" where
  "get_sir_omega_X X P =
     (let N = length P
      in if length X \<noteq> 2 * N then Inl (ValueError ''cannot reshape array'')
         else Inr (sum_list (map2 (\<lambda>s p. (1 - s) * p) (take N X) P) / sum_list P))"

text \<open>
  \<^verbatim>\<open>compute_sir_X\<close> returns \<^verbatim>\<open>sol.y[:,-1:].T\<close>: a two-dimensional array whose only row is
  the last column of \<^verbatim>\<open>sol.y\<close>, whatever \<^verbatim>\<open>t_eval\<close> was (no row when \<^verbatim>\<open>sol.y\<close> has no
  column).
\<close>

definition compute_sir_X ::
  "ivp_solver \<Rightarrow> vec \<Rightarrow> int \<Rightarrow> matrix \<Rightarrow> real \<Rightarrow> real list option \<Rightarrow> error + vec list" where
  "compute_sir_X solve_ivp X dt B gamma t_eval =
     (let t_eval = (case t_eval of None \<Rightarrow> [0, real_of_int dt] | Some te \<Rightarrow> te)
      in case solve_ivp (\<lambda>t X. func_sir_dX t X B gamma) X (real_of_int dt) t_eval of
           Inl e \<Rightarrow> Inl e
         | Inr sol \<Rightarrow>
             if \<not> sol_success sol then Inl (ValueError ''integration failed!'')
             else Inr (if sol_y sol = [] then [] else [last (sol_y sol)]))"

text \<open>The function to zero in a pass of \<^verbatim>\<open>fit_sir\<close>:
  \<^verbatim>\<open>lambda b: get_sir_omega_X(compute_sir_X(X, dt, b*B, gamma, method_solver), population) - ypred\<close>.\<close>

definition fit_func_root ::
  "ivp_solver \<Rightarrow> vec \<Rightarrow> int \<Rightarrow> matrix \<Rightarrow> real \<Rightarrow> vec \<Rightarrow> real \<Rightarrow> real \<Rightarrow> error + real" where
  "fit_func_root solve_ivp X dt B gamma population ypred b =
     (case compute_sir_X solve_ivp X dt (smult b B) gamma None of
        Inl e \<Rightarrow> Inl e
      | Inr Xnew \<Rightarrow>
          (case get_sir_omega_X (concat Xnew) population of
             Inl e \<Rightarrow> Inl e
           | Inr om \<Rightarrow> Inr (om - ypred)))"

text \<open>The variables that a pass of the loop of \<^verbatim>\<open>fit_sir\<close> reads and updates.\<close>

record fit_state =
  fs_t :: date
  fs_X :: vec
  fs_B :: matrix
  fs_b_scale :: real
  fs_ts :: "date list"
  fs_Xs :: "vec list"
  fs_Ys :: "real list"
  fs_b_scales :: "real list"

text \<open>
  One pass of \<^verbatim>\<open>for i in range(1, nt)\<close>, with \<^verbatim>\<open>tnew = times[i]\<close>, in two parts.
  \<open>fit_accept\<close> is the part after the bracketing: the root between \<^verbatim>\<open>blo\<close> and \<^verbatim>\<open>bhi\<close>,
  the second integration at the root, and the updates of the pass.
\<close>

definition fit_accept ::
  "ivp_solver \<Rightarrow> root_finder \<Rightarrow> real \<Rightarrow> vec \<Rightarrow> nat \<Rightarrow> real \<Rightarrow> date \<Rightarrow> matrix \<Rightarrow> real \<Rightarrow> real
     \<Rightarrow> fit_state \<Rightarrow> error + fit_state" where
  "fit_accept solve_ivp root_scalar gamma population N ypred tnew B blo bhi s =
     (let dt = tnew - fs_t s;
          func_root = fit_func_root solve_ivp (fs_X s) dt B gamma population ypred
      in case root_scalar func_root blo bhi of
           Inl e \<Rightarrow> Inl e
         | Inr sol \<Rightarrow>
             if \<not> sol_converged sol then Inl (ValueError ''root finding failed!'')
             else
               let b_scale = sol_root sol;
                   t_eval = arange (dt + 1)
               in (case compute_sir_X solve_ivp (fs_X s) dt (smult b_scale B)
                          gamma (Some t_eval) of
                     Inl e \<Rightarrow> Inl e
                   | Inr Xnews \<Rightarrow>
                       if Xnews = [] then Inl IndexError
                       else
                         let Xnew = last Xnews
                         in (case get_sir_omega_X Xnew population of
                               Inl e \<Rightarrow> Inl e
                             | Inr y \<Rightarrow>
                                 if \<not> list_all (\<lambda>x. length x = 2 * N) Xnews
                                 then Inl (ValueError ''cannot reshape array'')
                                 else Inr
                                   \<lparr>fs_t = tnew, fs_X = Xnew, fs_B = B,
                                    fs_b_scale = b_scale,
                                    fs_ts = fs_ts s @ days_after (fs_t s) dt,
                                    fs_Xs = fs_Xs s @ Xnews,
                                    fs_Ys = fs_Ys s @ [y],
                                    fs_b_scales = fs_b_scales s @ [b_scale]\<rparr>)))"

text \<open>
  The head of the pass: the matrix of the day, \<^verbatim>\<open>ypred = Y_real[i]\<close>, and the bracketing
  loop \<^verbatim>\<open>for k in range(1,10)\<close>, nine passes with \<^verbatim>\<open>fscale = 3.\<close>, from
  \<^verbatim>\<open>bhi = b_scale\<close>; \<^verbatim>\<open>blo = 0.\<close> is set once before the day loop and never updated.
\<close>

definition fit_step ::
  "ivp_solver \<Rightarrow> root_finder \<Rightarrow> real \<Rightarrow> vec \<Rightarrow> store \<Rightarrow> string \<Rightarrow> (date \<Rightarrow> string) \<Rightarrow> nat
     \<Rightarrow> real list \<Rightarrow> nat \<Rightarrow> date \<Rightarrow> fit_state \<Rightarrow> error + fit_state" where
  "fit_step solve_ivp root_scalar gamma population store pathtoloc tfmt N Y_real i tnew s =
     (case refresh_B store pathtoloc tfmt (fs_t s) (fs_B s) of
        Inl e \<Rightarrow> Inl e
      | Inr B \<Rightarrow>
          let dt = tnew - fs_t s
          in if i \<ge> length Y_real then Inl IndexError
             else
               let ypred = Y_real ! i;
                   func_root = fit_func_root solve_ivp (fs_X s) dt B gamma population ypred
               in (case bracket_loop func_root 3 9 (fs_b_scale s) None of
                     Inl e \<Rightarrow> Inl e
                   | Inr (bhi, None) \<Rightarrow> Inl UnboundLocalError
                   | Inr (bhi, Some f) \<Rightarrow>
                       if f < 0 then Inl (ValueError ''Problem in bracketing!'')
                       else fit_accept solve_ivp root_scalar gamma population N ypred tnew
                              B 0 bhi s))"

fun fit_loop ::
  "ivp_solver \<Rightarrow> root_finder \<Rightarrow> real \<Rightarrow> vec \<Rightarrow> store \<Rightarrow> string \<Rightarrow> (date \<Rightarrow> string) \<Rightarrow> nat
     \<Rightarrow> real list \<Rightarrow> nat \<Rightarrow> date list \<Rightarrow> fit_state \<Rightarrow> error + fit_state"
where
  "fit_loop solve_ivp root_scalar gamma population store pathtoloc tfmt N Y_real i [] s = Inr s"
| "fit_loop solve_ivp root_scalar gamma population store pathtoloc tfmt N Y_real i (tnew # rest) s =
     (case fit_step solve_ivp root_scalar gamma population store pathtoloc tfmt N Y_real i tnew s of
        Inl e \<Rightarrow> Inl e
      | Inr s' \<Rightarrow>
          fit_loop solve_ivp root_scalar gamma population store pathtoloc tfmt N Y_real (Suc i) rest s')"

text \<open>
  The initialisations of \<^verbatim>\<open>fit_sir\<close>, up to the day loop: the matrix of \<^verbatim>\<open>times[0]\<close>,
  \<^verbatim>\<open>N\<close>, \<^verbatim>\<open>Y_real\<close>, and the state made of the first row of \<^verbatim>\<open>T_real\<close>.
\<close>

definition fit_init ::
  "date \<Rightarrow> matrix \<Rightarrow> vec \<Rightarrow> store \<Rightarrow> string \<Rightarrow> (date \<Rightarrow> string) \<Rightarrow> real
     \<Rightarrow> error + (nat \<times> real list \<times> fit_state)" where
  "fit_init t T_real population store pathtoloc tfmt b_scale =
     (case read_df t tfmt store pathtoloc of
        Inl e \<Rightarrow> Inl e
      | Inr B \<Rightarrow>
          let N = shape0 B
          in if \<not> list_all (\<lambda>row. length row = length population) T_real
             then Inl (ValueError ''einsum: operands could not be broadcast together'')
             else
               let Y_real = map (\<lambda>row. sum_list (map2 (*) row population)
                                          / sum_list population) T_real
               in (case T_real of
                     [] \<Rightarrow> Inl IndexError
                   | I # _ \<Rightarrow>
                       let S = map (\<lambda>i. 1 - i) I;
                           X = sir_SI_to_X S I
                       in (case get_sir_omega_X X population of
                             Inl e \<Rightarrow> Inl e
                           | Inr y \<Rightarrow>
                               if length X \<noteq> 2 * N
                               then Inl (ValueError ''cannot reshape array'')
                               else Inr (N, Y_real,
                                 \<lparr>fs_t = t, fs_X = X, fs_B = B, fs_b_scale = b_scale,
                                  fs_ts = [t], fs_Xs = [X], fs_Ys = [y],
                                  fs_b_scales = []\<rparr>))))"

text \<open>
  The three tables \<^verbatim>\<open>fit_sir\<close> returns: the index \<^verbatim>\<open>ts\<close> and the rows of \<^verbatim>\<open>df_S\<close> and
  \<^verbatim>\<open>df_I\<close>, and the two columns of \<^verbatim>\<open>df_fit\<close>.  \<^verbatim>\<open>pd.DataFrame(data=S, index=ts, ...)\<close>
  raises when the number of rows differs from the length of the index.
\<close>

record fit_result =
  fr_ts :: "date list"
  fr_S :: "vec list"
  fr_I :: "vec list"
  fr_scale :: "real option list"
  fr_frac_infected_tot :: "real list"

definition fit_sir ::
  "ivp_solver \<Rightarrow> root_finder \<Rightarrow> date list \<Rightarrow> matrix \<Rightarrow> real \<Rightarrow> vec \<Rightarrow> store \<Rightarrow> string
     \<Rightarrow> (date \<Rightarrow> string) \<Rightarrow> real \<Rightarrow> error + fit_result" where
  "fit_sir solve_ivp root_scalar times_list T_real gamma population store pathtoloc tfmt b_scale =
     (case times_list of
        [] \<Rightarrow> Inl IndexError
      | t # later \<Rightarrow>
          (case fit_init t T_real population store pathtoloc tfmt b_scale of
             Inl e \<Rightarrow> Inl e
           | Inr (N, Y_real, s0) \<Rightarrow>
               (case fit_loop solve_ivp root_scalar gamma population store
                       pathtoloc tfmt N Y_real 1 later s0 of
                  Inl e \<Rightarrow> Inl e
                | Inr s \<Rightarrow>
                    if length (fs_Xs s) \<noteq> length (fs_ts s)
                    then Inl (ValueError ''Shape of passed values'')
                    else Inr
                      \<lparr>fr_ts = fs_ts s,
                       fr_S = map (take N) (fs_Xs s),
                       fr_I = map (drop N) (fs_Xs s),
                       fr_scale = map Some (fs_b_scales s) @ [None],
                       fr_frac_infected_tot = fs_Ys s\<rparr>)))"

section \<open>Stand-ins for the library routines and concrete inputs\<close>

text \<open>
  The theorems below hold for every solver and every root finder.  Where a concrete run
  is evaluated, the solver is the explicit Euler method on the sample times, and the root
  finder returns an end of the bracket where the function vanishes, raises when both
  ends have values of one sign (as \<^verbatim>\<open>brentq\<close> does), and otherwise returns the zero of the
  chord, which is the root of an affine function.
\<close>

fun euler_samples ::
  "(real \<Rightarrow> vec \<Rightarrow> error + vec) \<Rightarrow> real \<Rightarrow> vec \<Rightarrow> real list \<Rightarrow> error + vec list" where
  "euler_samples f t v [] = Inr []"
| "euler_samples f t v (t' # ts) =
     (case f t v of
        Inl e \<Rightarrow> Inl e
      | Inr dv \<Rightarrow>
          let v' = map2 (\<lambda>a d. a + (t' - t) * d) v dv
          in (case euler_samples f t' v' ts of
                Inl e \<Rightarrow> Inl e
              | Inr vs \<Rightarrow> Inr (v' # vs)))"

definition euler_ivp :: ivp_solver where
  "euler_ivp f y0 dt t_eval =
     (case euler_samples f 0 y0 t_eval of
        Inl e \<Rightarrow> Inl e
      | Inr vs \<Rightarrow> Inr \<lparr>sol_success = True, sol_y = vs\<rparr>)"

definition chord_root :: root_finder where
  "chord_root f a b =
     (case f a of
        Inl e \<Rightarrow> Inl e
      | Inr fa \<Rightarrow>
          (case f b of
             Inl e \<Rightarrow> Inl e
           | Inr fb \<Rightarrow>
               if fa = 0 then Inr \<lparr>sol_converged = True, sol_root = a\<rparr>
               else if fb = 0 then Inr \<lparr>sol_converged = True, sol_root = b\<rparr>
               else if fa * fb > 0
               then Inl (ValueError ''f(a) and f(b) must have different signs'')
               else Inr \<lparr>sol_converged = True, sol_root = a - fa * (b - a) / (fb - fa)\<rparr>))"

definition day_name :: "date \<Rightarrow> string" where
  "day_name t = decimal (nat t)"

definition one_store :: "date \<Rightarrow> matrix \<Rightarrow> store" where
  "one_store t B = [store_key ''loc'' day_name t \<mapsto> B]"

text \<open>A root finder that reports no convergence, and the state and the store of a
  one-community run that starts with the infected fraction \<open>0.01\<close> and has the matrix
  \<open>[[1e-4]]\<close>.\<close>

definition never_converged :: root_finder where
  "never_converged f a b = Inr \<lparr>sol_converged = False, sol_root = a\<rparr>"


definition seed_state :: "date \<Rightarrow> real \<Rightarrow> fit_state" where
  "seed_state t b =
     \<lparr>fs_t = t, fs_X = [99/100, 1/100], fs_B = [[1/10000]], fs_b_scale = b,
      fs_ts = [t], fs_Xs = [[99/100, 1/100]], fs_Ys = [1/100],
      fs_b_scales = []\<rparr>"

section \<open>Properties of the right-hand side\<close>







section \<open>Properties of the infectivity matrix\<close>

text \<open>
  C3.  For a square flux matrix \<open>F\<close>, \<open>get_infectivity_matrix\<close> returns the matrix that the
  specification describes: with \<open>p\<^sub>i = F\<^sub>i\<^sub>i\<close>, its inverse where \<open>p\<^sub>i > 0\<close> and \<open>0\<close> otherwise,
  and \<open>L = F + F\<^sup>T\<close> with the diagonal replaced by \<open>p\<close> and row \<open>i\<close> scaled by that inverse,
  the result is \<open>0.5 (L + L\<^sup>T)\<close>.  For a matrix that is not square it raises.
\<close>

theorem get_infectivity_matrix_spec:
  "(length F = N \<and> (\<forall>row\<in>set F. length row = N) \<longrightarrow>
      (\<exists>L. get_infectivity_matrix F = Inr L \<and> length L = N \<and>
         (\<forall>i<N. length (L ! i) = N \<and> (\<forall>j<N. L ! i ! j = spec_infectivity F i j)))) \<and>
   (shape1 F \<noteq> shape0 F \<longrightarrow> get_infectivity_matrix F = Inl (ValueError []))"
proof (intro conjI impI)
  assume F: "length F = N \<and> (\<forall>row\<in>set F. length row = N)"
  have sq: "shape1 F = shape0 F"
    using F by (cases F) (auto simp: shape1_def shape0_def)
  have len: "length (F ! i) = N" if "i < N" for i using F that by simp
  have "get_infectivity_matrix F =
          Inr (smult (1 / 2)
                 (madd (einsum_ij_i (fill_diagonal (madd F (transpose_sq N F)) (diagonal F))
                          (map (\<lambda>p. if p > 0 then 1 / p else 0) (diagonal F)))
                    (transpose_sq N
                       (einsum_ij_i (fill_diagonal (madd F (transpose_sq N F)) (diagonal F))
                          (map (\<lambda>p. if p > 0 then 1 / p else 0) (diagonal F))))))"
    using F by (simp add: get_infectivity_matrix_def sq Let_def shape0_def)
  then show "\<exists>L. get_infectivity_matrix F = Inr L \<and> length L = N \<and>
         (\<forall>i<N. length (L ! i) = N \<and> (\<forall>j<N. L ! i ! j = spec_infectivity F i j))"
    using F len
    by (simp add: smult_def madd_def transpose_sq_def fill_diagonal_def einsum_ij_i_def
        diagonal_def spec_infectivity_def spec_scaled_def spec_L_def spec_pinv_def spec_p_def)
next
  assume "shape1 F \<noteq> shape0 F"
  then show "get_infectivity_matrix F = Inl (ValueError [])"
    by (simp add: get_infectivity_matrix_def)
qed

theorem get_infectivity_matrix_spec_witness:
  "(\<exists>L. get_infectivity_matrix [[2, 1], [3, 0]] = Inr L \<and> length L = 2 \<and>
      L ! 0 ! 1 = spec_infectivity [[2, 1], [3, 0]] 0 1 \<and>
      spec_infectivity [[2, 1], [3, 0]] 0 1 = 1) \<and>
   get_infectivity_matrix [[2, 1, 5], [3, 0, 7]] = Inl (ValueError [])"
proof -
  have ne: "shape1 [[2, 1, 5], [3, 0, 7 :: real]] \<noteq> shape0 [[2, 1, 5], [3, 0, 7 :: real]]"
    by (simp add: shape1_def shape0_def)
  have sq: "length [[2, 1], [3, 0 :: real]] = 2 \<and> (\<forall>row\<in>set [[2, 1], [3, 0 :: real]]. length row = 2)"
    by simp
  have v: "spec_infectivity [[2, 1], [3, 0]] 0 1 = 1"
    by (simp add: spec_infectivity_def spec_scaled_def spec_L_def spec_pinv_def spec_p_def)
  from get_infectivity_matrix_spec [of "[[2, 1], [3, 0]]" 2] sq
  obtain L where L: "get_infectivity_matrix [[2, 1], [3, 0]] = Inr L" "length L = 2"
    "\<forall>i<2. length (L ! i) = 2 \<and> (\<forall>j<2. L ! i ! j = spec_infectivity [[2, 1], [3, 0]] i j)"
    by blast
  from L(3) have "L ! 0 ! 1 = spec_infectivity [[2, 1], [3, 0]] 0 1" by simp
  moreover from get_infectivity_matrix_spec [of "[[2, 1, 5], [3, 0, 7]]" 2] ne
  have "get_infectivity_matrix [[2, 1, 5], [3, 0, 7]] = Inl (ValueError [])" by blast
  ultimately show ?thesis using L(1,2) v by blast
qed

section \<open>Properties of the epidemic size\<close>

lemma shape_smult [simp]: "shape0 (smult x M) = shape0 M" "shape1 (smult x M) = shape1 M"
  by (cases M; simp add: shape0_def shape1_def smult_def)+

lemma norm2_single [simp]: "norm2 [a] = \<bar>a\<bar>"
  by (simp add: norm2_def)

lemma epidemic_loop_pos:
  "0 < n \<Longrightarrow> epidemic_loop M e gamma r n (k, Xo, Xnew) =
     (if gamma = 0 then Inl ZeroDivisionError
      else if rtol_below Xnew (fp_step M e gamma Xnew) r
           then Inr (Suc k, Some Xnew, fp_step M e gamma Xnew)
           else epidemic_loop M e gamma r (n - 1) (Suc k, Some Xnew, fp_step M e gamma Xnew))"
  by (cases n) (simp_all add: Let_def)

lemma epidemic_loop_returns:
  "gamma \<noteq> 0 \<Longrightarrow>
     \<exists>k' X' Xn. epidemic_loop M e gamma r n (k, Some X, Xnew) = Inr (k', Some X', Xn)"
proof (induction n arbitrary: k X Xnew)
  case 0
  then show ?case by simp
next
  case (Suc n)
  then show ?case by (simp add: Let_def)
qed

lemma get_epidemic_size_returns:
  assumes "shape1 M = shape0 M" "length e = shape0 M" "gamma \<noteq> 0" "0 < itermax"
  shows "\<exists>Om. get_epidemic_size M e gamma itermax r = Inr Om"
proof -
  obtain n where n: "itermax = Suc n" using assms(4) by (cases itermax) auto
  let ?X0 = "replicate (shape0 M) (0::real)"
  have "\<exists>k' X' Xn. epidemic_loop M e gamma r (Suc n) (0, None, ?X0) = Inr (k', Some X', Xn)"
    using epidemic_loop_returns [OF assms(3), of M e r n 1 ?X0 "fp_step M e gamma ?X0"]
    by (simp add: Let_def assms(3))
  then show ?thesis
    using assms n by (auto simp: get_epidemic_size_def)
qed

text \<open>
  Whenever \<open>get_epidemic_size\<close> returns, the loop has ended with some \<^verbatim>\<open>X\<close> and with
  \<^verbatim>\<open>Xnew\<close> the result of one more pass from \<^verbatim>\<open>X\<close>, and the value returned is computed
  from \<^verbatim>\<open>X\<close>.
\<close>

lemma epidemic_loop_invariant:
  "gamma \<noteq> 0 \<Longrightarrow> Xn = fp_step M e gamma X \<Longrightarrow>
   epidemic_loop M e gamma r n (k, Some X, Xn) = Inr (k', Xo', Xn') \<Longrightarrow>
     \<exists>X'. Xo' = Some X' \<and> Xn' = fp_step M e gamma X'"
proof (induction n arbitrary: k X Xn)
  case 0
  then show ?case by auto
next
  case (Suc n)
  show ?case
  proof (cases "rtol_below Xn (fp_step M e gamma Xn) r")
    case True
    with Suc.prems show ?thesis by (auto simp: Let_def)
  next
    case False
    with Suc.prems have
      "epidemic_loop M e gamma r n (Suc k, Some Xn, fp_step M e gamma Xn) = Inr (k', Xo', Xn')"
      by (simp add: Let_def)
    from Suc.IH [OF Suc.prems(1) refl this] show ?thesis .
  qed
qed

lemma get_epidemic_size_value:
  assumes "get_epidemic_size M e gamma itermax r = Inr Om"
  shows "\<exists>k X. epidemic_loop M e gamma r itermax (0, None, replicate (shape0 M) 0)
                  = Inr (k, Some X, fp_step M e gamma X) \<and>
               Om = sum_list (infected_B e X) / real (shape0 M)"
proof -
  from assms obtain k X Xnew where
    l: "epidemic_loop M e gamma r itermax (0, None, replicate (shape0 M) 0) = Inr (k, Some X, Xnew)"
    and Om: "Om = sum_list (infected_B e X) / real (shape0 M)"
    by (auto simp: get_epidemic_size_def Let_def split: if_splits sum.splits option.splits)
  obtain n where n: "itermax = Suc n" using l by (cases itermax) auto
  from l n have g: "gamma \<noteq> 0" by (auto simp: Let_def split: if_splits)
  let ?X0 = "replicate (shape0 M) (0::real)"
  have "Xnew = fp_step M e gamma X"
  proof (cases "rtol_below ?X0 (fp_step M e gamma ?X0) r")
    case True
    with l n g show ?thesis by (auto simp: Let_def)
  next
    case False
    with l n g have
      "epidemic_loop M e gamma r n (Suc 0, Some ?X0, fp_step M e gamma ?X0) = Inr (k, Some X, Xnew)"
      by (simp add: Let_def)
    from epidemic_loop_invariant [OF g refl this] show ?thesis by simp
  qed
  with l Om show ?thesis by blast
qed

text \<open>
  C2.  The claim reads the returned \<open>\<Omega>\<close> off the last iterate computed.  The source
  computes it from \<^verbatim>\<open>X\<close>, the iterate that entered the last pass, while the last iterate
  computed is \<^verbatim>\<open>Xnew\<close>.  With \<open>M = [[1]]\<close>, \<open>\<epsilon> = [1/2]\<close>, \<open>\<gamma> = 1\<close> and \<^verbatim>\<open>itermax = 1\<close> the one
  pass leaves \<^verbatim>\<open>X = [0]\<close> and \<^verbatim>\<open>Xnew = [1/2]\<close>; the function returns \<open>1/2\<close>, the mean of the
  seed, and not the value \<open>1 - exp (- 1/2) / 2\<close> that the last iterate gives.
\<close>

theorem get_epidemic_size_previous_iterate:
  "epidemic_loop [[1]] [1/2] 1 (1/10^8) 1 (0, None, [0]) = Inr (1, Some [0], [1/2]) \<and>
   get_epidemic_size [[1]] [1/2] 1 1 (1/10^8) = Inr (1/2) \<and>
   sum_list (infected_B [1/2] [0]) / 1 = 1/2 \<and>
   sum_list (infected_B [1/2] [1/2]) / 1 \<noteq> 1/2"
proof -
  have s: "fp_step [[1]] [1/2] 1 [0] = [1/2]"
    by (simp add: fp_step_def einsum_ab_b_def infected_B_def)
  have r: "\<not> rtol_below [0] [1/2] (1/10^8)"
    by (simp add: rtol_below_def)
  have l: "epidemic_loop [[1]] [1/2] 1 (1/10^8) 1 (0, None, [0]) = Inr (1, Some [0], [1/2])"
    using r by (simp add: epidemic_loop_pos s)
  have g: "get_epidemic_size [[1]] [1/2] 1 1 (1/10^8) = Inr (1/2)"
    using l by (simp add: get_epidemic_size_def shape0_def shape1_def infected_B_def)
  have "exp (- (1/2 :: real)) \<noteq> 1" by simp
  then have "sum_list (infected_B [1/2] [1/2]) / 1 \<noteq> 1/2"
    by (simp add: infected_B_def)
  moreover have "sum_list (infected_B [1/2] [0]) / 1 = 1/2"
    by (simp add: infected_B_def)
  ultimately show ?thesis using l g by blast
qed

section \<open>Properties of the bracketing loop and of the target scale\<close>

text \<open>
  Where the function to zero returns a value at every scale, the bracketing loop stops
  at the first of its \<open>n\<close> scales \<open>x c\<^sup>k\<close> whose value is positive; when none is, it
  ends at \<open>x c\<^sup>n\<close>, a scale it has not evaluated, with the value at \<open>x c\<^sup>n\<^sup>-\<^sup>1\<close>.
\<close>

lemma bracket_loop_found:
  assumes f: "\<And>x. f x = Inr (g x)"
  shows "k < n \<Longrightarrow> \<forall>j<k. g (x * c ^ j) \<le> 0 \<Longrightarrow> g (x * c ^ k) > 0 \<Longrightarrow>
         bracket_loop f c n x fo = Inr (x * c ^ k, Some (g (x * c ^ k)))"
proof (induction n arbitrary: k x fo)
  case 0
  then show ?case by simp
next
  case (Suc n)
  show ?case
  proof (cases k)
    case 0
    with Suc.prems show ?thesis by (simp add: f)
  next
    case (Suc k')
    from Suc.prems(2) have g0: "g x \<le> 0" using Suc by force
    have le: "\<forall>j<k'. g (x * c * c ^ j) \<le> 0"
    proof (intro allI impI)
      fix j assume "j < k'"
      then have "Suc j < k" using Suc by simp
      with Suc.prems(2) have "g (x * c ^ Suc j) \<le> 0" by blast
      then show "g (x * c * c ^ j) \<le> 0" by (simp add: mult.assoc)
    qed
    have gt: "g (x * c * c ^ k') > 0"
      using Suc.prems(3) Suc by (simp add: mult.assoc)
    have "k' < n" using Suc.prems(1) Suc by simp
    from Suc.IH [OF this le gt]
    show ?thesis using g0 Suc by (simp add: f mult.assoc)
  qed
qed

lemma bracket_loop_exhausted:
  assumes f: "\<And>x. f x = Inr (g x)"
  shows "\<forall>j<n. g (x * c ^ j) \<le> 0 \<Longrightarrow>
         bracket_loop f c n x fo =
           Inr (x * c ^ n, if n = 0 then fo else Some (g (x * c ^ (n - 1))))"
proof (induction n arbitrary: x fo)
  case 0
  then show ?case by simp
next
  case (Suc n)
  from Suc.prems have g0: "g x \<le> 0" by force
  have le: "\<forall>j<n. g (x * c * c ^ j) \<le> 0"
  proof (intro allI impI)
    fix j assume "j < n"
    then have "Suc j < Suc n" by simp
    with Suc.prems have "g (x * c ^ Suc j) \<le> 0" by blast
    then show "g (x * c * c ^ j) \<le> 0" by (simp add: mult.assoc)
  qed
  show ?case
  proof (cases n)
    case 0
    then show ?thesis using g0 by (simp add: f)
  next
    case (Suc m)
    from Suc.IH [OF le, of "Some (g x)"] show ?thesis
      using g0 Suc by (simp add: f mult.assoc)
  qed
qed

lemma target_func_root_value:
  assumes "shape1 M = shape0 M" "length Ii = shape0 M" "gamma \<noteq> 0" "0 < itermax"
  shows "target_func_root M Ii gamma target rtol_stop itermax x
           = Inr (epidemic_size_at M Ii gamma itermax rtol_stop x - target)"
proof -
  obtain Om where "get_epidemic_size (smult x M) Ii gamma itermax rtol_stop = Inr Om"
    using get_epidemic_size_returns [of "smult x M" Ii gamma itermax rtol_stop] assms by auto
  then show ?thesis by (simp add: target_func_root_def epidemic_size_at_def)
qed

text \<open>
  C4, as the code has it.  For a square \<open>M\<close> with at least one row, a seed of matching
  length, \<open>\<gamma> \<noteq> 0\<close> and at least one pass of the fixed-point loop, \<open>get_target_scale\<close>
  \<^item> raises \<^verbatim>\<open>Lower bound on scale not small enough!\<close> when the epidemic size at
    \<open>x\<^sub>l\<^sub>o = 1e-5\<close> is above the target;
  \<^item> raises \<^verbatim>\<open>Problem in bracketing!\<close> when none of the ten sizes at \<open>x\<^sub>l\<^sub>o 10\<^sup>j\<close>,
    \<open>j = 0, \<dots>, 9\<close>, is above the target and the last one is below it;
  \<^item> hands the bracket \<open>(x\<^sub>l\<^sub>o, x\<^sub>l\<^sub>o 10\<^sup>1\<^sup>0)\<close> to the root finder, with no error of its own,
    when none of the ten sizes is above the target and the last one equals it;
  \<^item> and hands over the bracket \<open>(x\<^sub>l\<^sub>o, x\<^sub>l\<^sub>o 10\<^sup>k)\<close> when the size at \<open>x\<^sub>l\<^sub>o 10\<^sup>k\<close> is the
    first above the target.
  In the last two cases the result is the root finder's.
\<close>

theorem get_target_scale_bracketing:
  assumes "shape1 M = shape0 M" "length Ii = shape0 M" "gamma \<noteq> 0" "0 < itermax"
    and "0 < shape0 M"
  shows
   "(epidemic_size_at M Ii gamma itermax rtol_stop (1 / 10 ^ 5) > target \<longrightarrow>
       get_target_scale root_scalar M Ii gamma target rtol_stop itermax
         = Inl (ValueError ''Lower bound on scale not small enough!'')) \<and>
    ((\<forall>j<10. epidemic_size_at M Ii gamma itermax rtol_stop (1 / 10 ^ 5 * 10 ^ j) \<le> target) \<and>
     epidemic_size_at M Ii gamma itermax rtol_stop (1 / 10 ^ 5 * 10 ^ 9) < target \<longrightarrow>
       get_target_scale root_scalar M Ii gamma target rtol_stop itermax
         = Inl (ValueError ''Problem in bracketing!'')) \<and>
    ((\<forall>j<10. epidemic_size_at M Ii gamma itermax rtol_stop (1 / 10 ^ 5 * 10 ^ j) \<le> target) \<and>
     epidemic_size_at M Ii gamma itermax rtol_stop (1 / 10 ^ 5 * 10 ^ 9) = target \<longrightarrow>
       get_target_scale root_scalar M Ii gamma target rtol_stop itermax
         = (case root_scalar (target_func_root M Ii gamma target rtol_stop itermax)
                   (1 / 10 ^ 5) (1 / 10 ^ 5 * 10 ^ 10) of
              Inl e \<Rightarrow> Inl e | Inr sol \<Rightarrow> Inr (sol_root sol))) \<and>
    (k < 10 \<and>
     (\<forall>j<k. epidemic_size_at M Ii gamma itermax rtol_stop (1 / 10 ^ 5 * 10 ^ j) \<le> target) \<and>
     epidemic_size_at M Ii gamma itermax rtol_stop (1 / 10 ^ 5) \<le> target \<and>
     epidemic_size_at M Ii gamma itermax rtol_stop (1 / 10 ^ 5 * 10 ^ k) > target \<longrightarrow>
       get_target_scale root_scalar M Ii gamma target rtol_stop itermax
         = (case root_scalar (target_func_root M Ii gamma target rtol_stop itermax)
                   (1 / 10 ^ 5) (1 / 10 ^ 5 * 10 ^ k) of
              Inl e \<Rightarrow> Inl e | Inr sol \<Rightarrow> Inr (sol_root sol)))"
proof -
  let ?Om = "epidemic_size_at M Ii gamma itermax rtol_stop"
  let ?f = "target_func_root M Ii gamma target rtol_stop itermax"
  let ?g = "\<lambda>x. ?Om x - target"
  let ?xlo = "1 / 10 ^ 5 :: real"
  have f: "\<And>x. ?f x = Inr (?g x)"
    using assms(1-4) by (rule target_func_root_value)
  have low: "get_target_scale root_scalar M Ii gamma target rtol_stop itermax
         = Inl (ValueError ''Lower bound on scale not small enough!'')" if "?Om ?xlo > target"
    using that by (simp add: get_target_scale_def f Let_def)
  have none_neg: "get_target_scale root_scalar M Ii gamma target rtol_stop itermax
         = Inl (ValueError ''Problem in bracketing!'')"
    if a: "\<forall>j<10. ?Om (?xlo * 10 ^ j) \<le> target" and b: "?Om (?xlo * 10 ^ 9) < target"
  proof -
    have "\<forall>j<10. ?g (?xlo * 10 ^ j) \<le> 0" using a by simp
    from bracket_loop_exhausted [of ?f ?g 10 ?xlo 10 None, OF f this]
    have bl: "bracket_loop ?f 10 10 ?xlo None
            = Inr (?xlo * 10 ^ 10, Some (?g (?xlo * 10 ^ 9)))" by simp
    have "?Om ?xlo \<le> target" using a [rule_format, of 0] by simp
    then show ?thesis using b bl
      by (simp add: get_target_scale_def f Let_def)
  qed
  have none_zero: "get_target_scale root_scalar M Ii gamma target rtol_stop itermax
         = (case root_scalar ?f ?xlo (?xlo * 10 ^ 10) of
              Inl e \<Rightarrow> Inl e | Inr sol \<Rightarrow> Inr (sol_root sol))"
    if a: "\<forall>j<10. ?Om (?xlo * 10 ^ j) \<le> target" and b: "?Om (?xlo * 10 ^ 9) = target"
  proof -
    have "\<forall>j<10. ?g (?xlo * 10 ^ j) \<le> 0" using a by simp
    from bracket_loop_exhausted [of ?f ?g 10 ?xlo 10 None, OF f this]
    have bl: "bracket_loop ?f 10 10 ?xlo None
            = Inr (?xlo * 10 ^ 10, Some (?g (?xlo * 10 ^ 9)))" by simp
    have "?Om ?xlo \<le> target" using a [rule_format, of 0] by simp
    then show ?thesis using b bl
      by (simp add: get_target_scale_def f Let_def)
  qed
  have found: "get_target_scale root_scalar M Ii gamma target rtol_stop itermax
         = (case root_scalar ?f ?xlo (?xlo * 10 ^ k) of
              Inl e \<Rightarrow> Inl e | Inr sol \<Rightarrow> Inr (sol_root sol))"
    if k: "k < 10" and a: "\<forall>j<k. ?Om (?xlo * 10 ^ j) \<le> target"
      and lo: "?Om ?xlo \<le> target" and b: "?Om (?xlo * 10 ^ k) > target"
  proof -
    have "\<forall>j<k. ?g (?xlo * 10 ^ j) \<le> 0" using a by simp
    moreover have "?g (?xlo * 10 ^ k) > 0" using b by simp
    ultimately have bl: "bracket_loop ?f 10 10 ?xlo None
            = Inr (?xlo * 10 ^ k, Some (?g (?xlo * 10 ^ k)))"
      using bracket_loop_found [of ?f ?g k 10 ?xlo 10 None, OF f k] by blast
    show ?thesis using lo b bl
      by (simp add: get_target_scale_def f Let_def)
  qed
  show ?thesis using low none_neg none_zero found by blast
qed


text \<open>With the seed \<open>[1]\<close> the vector \<^verbatim>\<open>B\<close> is \<open>[1]\<close> whatever \<^verbatim>\<open>X\<close> is, the second pass
  converges, and the epidemic size is \<open>1\<close>.\<close>

lemma ones_size:
  assumes "0 < x"
  shows "get_epidemic_size (smult x [[1]]) [1] 1 100 (1/10^8) = Inr 1"
proof -
  have s1: "fp_step (smult x [[1]]) [1] 1 [v] = [x]" for v
    by (simp add: fp_step_def smult_def einsum_ab_b_def infected_B_def)
  have r1: "\<not> rtol_below [0] [x] (1/10^8)"
    using assms by (simp add: rtol_below_def)
  have r2: "rtol_below [x] [x] (1/10^8)"
    using assms by (simp add: rtol_below_def)
  have "epidemic_loop (smult x [[1]]) [1] 1 (1/10^8) 100 (0, None, [0])
          = Inr (2, Some [x], [x])"
    using r1 r2 by (simp add: epidemic_loop_pos s1)
  then show ?thesis
    by (simp add: get_epidemic_size_def shape0_def shape1_def infected_B_def smult_def)
qed

lemma ones_size_at:
  "0 < x \<Longrightarrow> epidemic_size_at [[1]] [1] 1 100 (1/10^8) x = 1"
  using ones_size [of x] by (simp add: epidemic_size_at_def)

lemma ones_shape: "shape1 [[1::real]] = shape0 [[1::real]]" "length [1::real] = shape0 [[1::real]]"
  by (simp_all add: shape0_def shape1_def)

text \<open>
  C4 as stated fails.  With \<open>M = [[1]]\<close>, the seed \<open>[1]\<close>, \<open>\<gamma> = 1\<close> and the target \<open>1\<close> the
  epidemic size is \<open>1\<close> at each of the ten scales: it never exceeds the target.  No
  error is raised; the root finder is called and its root \<open>1e-5\<close> is returned.
\<close>

theorem get_target_scale_equal_counterexample:
  "map (\<lambda>k. get_epidemic_size (smult (1 / 10 ^ 5 * 10 ^ k) [[1]]) [1] 1 100 (1/10^8)) [0..<10]
     = replicate 10 (Inr 1) \<and>
   get_target_scale chord_root [[1]] [1] 1 1 (1/10^8) 100 = Inr (1 / 10 ^ 5)"
proof -
  let ?f = "target_func_root [[1]] [1] 1 1 (1/10^8) 100"
  let ?g = "\<lambda>x. epidemic_size_at [[1]] [1] 1 100 (1/10^8) x - 1"
  have f: "\<And>x. ?f x = Inr (?g x)"
    by (rule target_func_root_value) (simp_all add: shape0_def shape1_def)
  have pos: "0 < (1 / 10 ^ 5 * 10 ^ j :: real)" for j :: nat by simp
  have sizes: "get_epidemic_size (smult (1 / 10 ^ 5 * 10 ^ k) [[1]]) [1] 1 100 (1/10^8) = Inr 1"
    for k :: nat
    using ones_size [OF pos [of k]] by simp
  have "\<forall>j<10. ?g (1 / 10 ^ 5 * 10 ^ j) \<le> 0"
    using ones_size_at [OF pos] by simp
  from bracket_loop_exhausted [of ?f ?g 10 "1 / 10 ^ 5" 10 None, OF f this]
  have bl: "bracket_loop ?f 10 10 (1 / 10 ^ 5) None
          = Inr (1 / 10 ^ 5 * 10 ^ 10, Some (?g (1 / 10 ^ 5 * 10 ^ 9)))" by simp
  have g0: "?g (1 / 10 ^ 5 * 10 ^ j) = 0" for j :: nat
    using ones_size_at [OF pos [of j]] by simp
  have g00: "?g (1 / 10 ^ 5) = 0" using g0 [of 0] by simp
  have g10: "?g (1 / 10 ^ 5 * 10 ^ 10) = 0" by (rule g0)
  have cr: "chord_root ?f (1 / 10 ^ 5) (1 / 10 ^ 5 * 10 ^ 10)
            = Inr \<lparr>sol_converged = True, sol_root = 1 / 10 ^ 5\<rparr>"
    using g00 g10 f [of "1 / 10 ^ 5"] f [of "1 / 10 ^ 5 * 10 ^ 10"]
    by (simp add: chord_root_def)
  have "get_target_scale chord_root [[1]] [1] 1 1 (1/10^8) 100 = Inr (1 / 10 ^ 5)"
    using bl g00 g0 [of 9] cr f [of "1 / 10 ^ 5"]
    by (simp add: get_target_scale_def Let_def)
  moreover have "map (\<lambda>k. get_epidemic_size (smult (1 / 10 ^ 5 * 10 ^ k) [[1]]) [1] 1 100 (1/10^8)) [0..<10]
     = replicate 10 (Inr 1)"
    using sizes by (simp add: map_replicate_const)
  ultimately show ?thesis by blast
qed

theorem get_target_scale_bracketing_witness:
  "get_target_scale chord_root [[1]] [1] 1 (1/2) (1/10^8) 100
     = Inl (ValueError ''Lower bound on scale not small enough!'') \<and>
   get_target_scale chord_root [[1]] [1] 1 1 (1/10^8) 100
     = (case chord_root (target_func_root [[1]] [1] 1 1 (1/10^8) 100)
               (1 / 10 ^ 5) (1 / 10 ^ 5 * 10 ^ 10) of
          Inl e \<Rightarrow> Inl e | Inr sol \<Rightarrow> Inr (sol_root sol))"
proof -
  have pos: "0 < (1 / 10 ^ 5 * 10 ^ j :: real)" for j :: nat by simp
  have at: "epidemic_size_at [[1]] [1] 1 100 (1/10^8) (1 / 10 ^ 5 * 10 ^ j) = 1" for j :: nat
    by (rule ones_size_at [OF pos])
  have at0: "epidemic_size_at [[1]] [1] 1 100 (1/10^8) (1 / 10 ^ 5) = 1"
    using at [of 0] by simp
  have a: "epidemic_size_at [[1]] [1] 1 100 (1/10^8) (1 / 10 ^ 5) > 1/2"
    using at0 by simp
  have b: "(\<forall>j<10. epidemic_size_at [[1]] [1] 1 100 (1/10^8) (1 / 10 ^ 5 * 10 ^ j) \<le> 1) \<and>
     epidemic_size_at [[1]] [1] 1 100 (1/10^8) (1 / 10 ^ 5 * 10 ^ 9) = 1"
    using at at [of 9] by simp
  have h: "(0::nat) < 100" "(1::real) \<noteq> 0" "0 < shape0 [[1::real]]"
    by (simp_all add: shape0_def)
  from get_target_scale_bracketing [OF ones_shape h(2) h(1) h(3),
      where rtol_stop = "1/10^8" and target = "1/2" and root_scalar = chord_root and k = 0] a
  have "get_target_scale chord_root [[1]] [1] 1 (1/2) (1/10^8) 100
     = Inl (ValueError ''Lower bound on scale not small enough!'')" by blast
  moreover
  from get_target_scale_bracketing [OF ones_shape h(2) h(1) h(3),
      where rtol_stop = "1/10^8" and target = 1 and root_scalar = chord_root and k = 0] b
  have "get_target_scale chord_root [[1]] [1] 1 1 (1/10^8) 100
     = (case chord_root (target_func_root [[1]] [1] 1 1 (1/10^8) 100)
               (1 / 10 ^ 5) (1 / 10 ^ 5 * 10 ^ 10) of
          Inl e \<Rightarrow> Inl e | Inr sol \<Rightarrow> Inr (sol_root sol))" by blast
  ultimately show ?thesis by blast
qed

section \<open>The matrix of the first day\<close>

text \<open>
  C10.  \<open>integrate_sir\<close> and \<open>fit_sir\<close> read the matrix keyed at \<open>times[0]\<close> before anything
  else: when the store has no such entry both fail with the lookup error of that key,
  whatever the solver, the root finder and the other arguments are.  When the entry is
  there, the head of the first pass reads it again; the previous matrix is kept only
  for a day whose key is missing, which can happen from the second pass on.
\<close>

theorem first_matrix_required:
  "(store (store_key pathtoloc tfmt t0) = None \<longrightarrow>
      integrate_sir solve_ivp Xi (t0 # later) scales gamma store pathtoloc tfmt
        = Inl (KeyError (store_key pathtoloc tfmt t0)) \<and>
      fit_sir solve_ivp root_scalar (t0 # later) T_real gamma population store pathtoloc tfmt b_scale
        = Inl (KeyError (store_key pathtoloc tfmt t0))) \<and>
   (store (store_key pathtoloc tfmt t0) = Some B0 \<longrightarrow>
      refresh_B store pathtoloc tfmt t0 B = Inr B0) \<and>
   (store (store_key pathtoloc tfmt t) = None \<longrightarrow>
      refresh_B store pathtoloc tfmt t B = Inr B)"
  by (simp add: integrate_sir_def fit_sir_def fit_init_def read_df_def refresh_B_def)

lemma day_name_values: "day_name 0 = ''0''" "day_name 1 = ''1''"
  by (simp_all add: day_name_def)

theorem first_matrix_required_witness:
  "integrate_sir euler_ivp [99/100, 1/100] [1, 2] [1] (1/10) (one_store 0 [[0]]) ''loc'' day_name
     = Inl (KeyError ''loc/1'') \<and>
   fit_sir euler_ivp chord_root [1, 2] [[1/100], [1/50]] (1/10) [1] (one_store 0 [[0]]) ''loc''
     day_name 1 = Inl (KeyError ''loc/1'') \<and>
   refresh_B (one_store 0 [[0]]) ''loc'' day_name 0 [[5]] = Inr [[0]] \<and>
   refresh_B (one_store 0 [[0]]) ''loc'' day_name 1 [[5]] = Inr [[5]]"
proof -
  have none: "one_store 0 [[0]] (store_key ''loc'' day_name 1) = None"
    by (simp add: one_store_def store_key_def day_name_values)
  have some: "one_store 0 [[0]] (store_key ''loc'' day_name 0) = Some [[0]]"
    by (simp add: one_store_def)
  have key: "store_key ''loc'' day_name 1 = ''loc/1''"
    by (simp add: store_key_def day_name_values)
  from first_matrix_required [of "one_store 0 [[0]]" "''loc''" day_name 1 euler_ivp
      "[99/100, 1/100]" "[2]" "[1]" "1/10" chord_root "[[1/100], [1/50]]" "[1]" 1
      "[[0]]" "[[5]]" 1] none
  have a: "integrate_sir euler_ivp [99/100, 1/100] [1, 2] [1] (1/10) (one_store 0 [[0]]) ''loc'' day_name
     = Inl (KeyError ''loc/1'')"
    and b: "fit_sir euler_ivp chord_root [1, 2] [[1/100], [1/50]] (1/10) [1] (one_store 0 [[0]]) ''loc''
     day_name 1 = Inl (KeyError ''loc/1'')"
    and c: "refresh_B (one_store 0 [[0]]) ''loc'' day_name 1 [[5]] = Inr [[5]]"
    by (simp_all add: key)
  from first_matrix_required [of "one_store 0 [[0]]" "''loc''" day_name 0 euler_ivp
      "[99/100, 1/100]" "[2]" "[1]" "1/10" chord_root "[[1/100], [1/50]]" "[1]" 1
      "[[0]]" "[[5]]" 1] some
  have d: "refresh_B (one_store 0 [[0]]) ''loc'' day_name 0 [[5]] = Inr [[0]]"
    by simp
  from a b c d show ?thesis by blast
qed

section \<open>Properties of the fitting pass\<close>

lemma fit_step_bracket_fails:
  assumes B: "refresh_B store pathtoloc tfmt (fs_t s) (fs_B s) = Inr B"
    and i: "i < length Y_real"
    and g: "\<And>b. fit_func_root solve_ivp (fs_X s) (tnew - fs_t s) B gamma population
                    (Y_real ! i) b = Inr (g b)"
    and le: "\<forall>j<9. g (fs_b_scale s * 3 ^ j) \<le> 0"
    and neg: "g (fs_b_scale s * 3 ^ 8) < 0"
  shows "fit_step solve_ivp root_scalar gamma population store pathtoloc tfmt N Y_real i tnew s
           = Inl (ValueError ''Problem in bracketing!'')"
proof -
  let ?f = "fit_func_root solve_ivp (fs_X s) (tnew - fs_t s) B gamma population (Y_real ! i)"
  from bracket_loop_exhausted [of ?f g 9 "fs_b_scale s" 3 None, OF g le]
  have "bracket_loop ?f 3 9 (fs_b_scale s) None
          = Inr (fs_b_scale s * 3 ^ 9, Some (g (fs_b_scale s * 3 ^ 8)))" by simp
  then show ?thesis using B i neg
    by (simp add: fit_step_def Let_def)
qed


lemma fit_step_bracket_found:
  assumes B: "refresh_B store pathtoloc tfmt (fs_t s) (fs_B s) = Inr B"
    and i: "i < length Y_real"
    and g: "\<And>b. fit_func_root solve_ivp (fs_X s) (tnew - fs_t s) B gamma population
                    (Y_real ! i) b = Inr (g b)"
    and k: "k < 9"
    and le: "\<forall>j<k. g (fs_b_scale s * 3 ^ j) \<le> 0"
    and pos: "g (fs_b_scale s * 3 ^ k) > 0"
  shows "fit_step solve_ivp root_scalar gamma population store pathtoloc tfmt N Y_real i tnew s
           = fit_accept solve_ivp root_scalar gamma population N (Y_real ! i) tnew B 0
               (fs_b_scale s * 3 ^ k) s"
proof -
  let ?f = "fit_func_root solve_ivp (fs_X s) (tnew - fs_t s) B gamma population (Y_real ! i)"
  from bracket_loop_found [of ?f g k 9 "fs_b_scale s" 3 None, OF g k le pos]
  have "bracket_loop ?f 3 9 (fs_b_scale s) None
          = Inr (fs_b_scale s * 3 ^ k, Some (g (fs_b_scale s * 3 ^ k)))" by simp
  then show ?thesis using B i pos
    by (simp add: fit_step_def Let_def)
qed

lemma fit_accept_not_converged:
  assumes "root_scalar (fit_func_root solve_ivp (fs_X s) (tnew - fs_t s) B gamma population ypred)
             blo bhi = Inr sol" "\<not> sol_converged sol"
  shows "fit_accept solve_ivp root_scalar gamma population N ypred tnew B blo bhi s
           = Inl (ValueError ''root finding failed!'')"
  using assms by (simp add: fit_accept_def Let_def)

lemma fit_accept_raises:
  assumes "root_scalar (fit_func_root solve_ivp (fs_X s) (tnew - fs_t s) B gamma population ypred)
             blo bhi = Inl err"
  shows "fit_accept solve_ivp root_scalar gamma population N ypred tnew B blo bhi s = Inl err"
  using assms by (simp add: fit_accept_def Let_def)


lemma fit_loop_append:
  "fit_loop solve_ivp root_scalar gamma population store pathtoloc tfmt N Y_real i (pre @ rest) s0 =
     (case fit_loop solve_ivp root_scalar gamma population store pathtoloc tfmt N Y_real i pre s0 of
        Inl e \<Rightarrow> Inl e
      | Inr s \<Rightarrow> fit_loop solve_ivp root_scalar gamma population store pathtoloc tfmt N Y_real
                   (i + length pre) rest s)"
  by (induction pre arbitrary: i s0) (auto split: sum.splits)

lemma fit_sir_step_error:
  assumes init: "fit_init t0 T_real population store pathtoloc tfmt b_scale = Inr (N, Y_real, s0)"
    and pre: "fit_loop solve_ivp root_scalar gamma population store pathtoloc tfmt N Y_real 1 pre s0
                = Inr s"
    and step: "fit_step solve_ivp root_scalar gamma population store pathtoloc tfmt N Y_real
                 (Suc (length pre)) tnew s = Inl e"
  shows "fit_sir solve_ivp root_scalar (t0 # pre @ tnew # rest) T_real gamma population store
           pathtoloc tfmt b_scale = Inl e"
  using assms by (simp add: fit_sir_def fit_loop_append)


text \<open>A one-community run with the Euler stand-in: the function to zero is affine in
  the scale.\<close>

lemma euler_func_root:
  "fit_func_root euler_ivp [99/100, 1/100] 1 [[1/10000]] 0 [1] ypred b
     = Inr (1/100 + b * (99/100000000) - ypred)"
  by (simp add: fit_func_root_def compute_sir_X_def euler_ivp_def func_sir_dX_def shape0_def
      sir_X_to_SI_def sir_SI_to_X_def einsum_i_ij_j_def smult_def get_sir_omega_X_def
      Let_def algebra_simps)

lemma euler_fit_init:
  "fit_init t [[1/100], [y1]] [1] (one_store t [[1/10000]]) ''loc'' day_name b
     = Inr (1, [1/100, y1],
         \<lparr>fs_t = t, fs_X = [99/100, 1/100], fs_B = [[1/10000]], fs_b_scale = b,
          fs_ts = [t], fs_Xs = [[99/100, 1/100]], fs_Ys = [1/100],
          fs_b_scales = []\<rparr>)"
  by (simp add: fit_init_def read_df_def one_store_def shape0_def sir_SI_to_X_def
      get_sir_omega_X_def Let_def)

lemma euler_refresh:
  "refresh_B (one_store t [[1/10000]]) ''loc'' day_name t B = Inr [[1/10000]]"
  by (simp add: refresh_B_def read_df_def one_store_def)

lemma pow3_le: "j < 9 \<Longrightarrow> (3::real) ^ j \<le> 6561"
proof -
  assume "j < 9"
  then have "(3::real) ^ j \<le> 3 ^ 8" by (intro power_increasing) simp_all
  then show ?thesis by simp
qed

lemma euler_run_fails:
  assumes b: "0 < b" "b \<le> 1"
  shows "fit_sir euler_ivp chord_root [t, t + 1] [[1/100], [1/40]] 0 [1]
           (one_store t [[1/10000]]) ''loc'' day_name b = Inl (ValueError ''Problem in bracketing!'')"
proof -
  let ?s = "\<lparr>fs_t = t, fs_X = [99/100, 1/100], fs_B = [[1/10000]], fs_b_scale = b,
          fs_ts = [t], fs_Xs = [[99/100, 1/100]], fs_Ys = [1/100],
          fs_b_scales = []\<rparr>"
  let ?g = "\<lambda>x::real. 1/100 + x * (99/100000000) - 1/40"
  have le: "?g (b * 3 ^ j) \<le> 0" if "j < 9" for j
  proof -
    have "b * 3 ^ j \<le> 1 * 6561" using b pow3_le [OF that] by (intro mult_mono) simp_all
    then show ?thesis by simp
  qed
  have neg: "?g (b * 3 ^ 8) < 0" using b by simp
  have "fit_step euler_ivp chord_root 0 [1] (one_store t [[1/10000]]) ''loc'' day_name 1
          [1/100, 1/40] (Suc (length ([]::date list))) (t + 1) ?s
        = Inl (ValueError ''Problem in bracketing!'')"
    by (rule fit_step_bracket_fails [where g = ?g and B = "[[1/10000]]"])
       (use le neg in \<open>simp_all add: euler_refresh euler_func_root\<close>)
  from fit_sir_step_error [OF euler_fit_init _ this, where rest = "[]"]
  show ?thesis by simp
qed






text \<open>
  C9, as the code has it.  When the passes before a pass of the day loop have succeeded
  and that pass fails in the bracketing, the caller of \<open>fit_sir\<close> receives the error
  \<^verbatim>\<open>ValueError("Problem in bracketing!")\<close>; when the bracket is found and the root finder
  returns without having converged, it receives \<^verbatim>\<open>ValueError("root finding failed!")\<close>.
  Both are fixed messages: no date, no index of the pass and no number is part of them.
  An error that the root finder itself raises reaches the caller as it is.
\<close>

theorem fit_sir_error_values:
  assumes "fit_init t0 T_real population store pathtoloc tfmt b_scale = Inr (N, Y_real, s0)"
    and "fit_loop solve_ivp root_scalar gamma population store pathtoloc tfmt N Y_real 1 pre s0
           = Inr s"
    and "refresh_B store pathtoloc tfmt (fs_t s) (fs_B s) = Inr B"
    and "Suc (length pre) < length Y_real"
    and "\<And>b. fit_func_root solve_ivp (fs_X s) (tnew - fs_t s) B gamma population
                 (Y_real ! Suc (length pre)) b = Inr (g b)"
  shows
   "((\<forall>j<9. g (fs_b_scale s * 3 ^ j) \<le> 0) \<and> g (fs_b_scale s * 3 ^ 8) < 0 \<longrightarrow>
       fit_sir solve_ivp root_scalar (t0 # pre @ tnew # rest) T_real gamma population store
         pathtoloc tfmt b_scale = Inl (ValueError ''Problem in bracketing!'')) \<and>
    (k < 9 \<and> (\<forall>j<k. g (fs_b_scale s * 3 ^ j) \<le> 0) \<and> g (fs_b_scale s * 3 ^ k) > 0 \<and>
     root_scalar (fit_func_root solve_ivp (fs_X s) (tnew - fs_t s) B gamma population
                    (Y_real ! Suc (length pre))) 0 (fs_b_scale s * 3 ^ k) = Inr sol \<and>
     \<not> sol_converged sol \<longrightarrow>
       fit_sir solve_ivp root_scalar (t0 # pre @ tnew # rest) T_real gamma population store
         pathtoloc tfmt b_scale = Inl (ValueError ''root finding failed!'')) \<and>
    (k < 9 \<and> (\<forall>j<k. g (fs_b_scale s * 3 ^ j) \<le> 0) \<and> g (fs_b_scale s * 3 ^ k) > 0 \<and>
     root_scalar (fit_func_root solve_ivp (fs_X s) (tnew - fs_t s) B gamma population
                    (Y_real ! Suc (length pre))) 0 (fs_b_scale s * 3 ^ k) = Inl err \<longrightarrow>
       fit_sir solve_ivp root_scalar (t0 # pre @ tnew # rest) T_real gamma population store
         pathtoloc tfmt b_scale = Inl err)"
proof (intro conjI impI)
  assume "(\<forall>j<9. g (fs_b_scale s * 3 ^ j) \<le> 0) \<and> g (fs_b_scale s * 3 ^ 8) < 0"
  then have "fit_step solve_ivp root_scalar gamma population store pathtoloc tfmt N Y_real
               (Suc (length pre)) tnew s = Inl (ValueError ''Problem in bracketing!'')"
    using fit_step_bracket_fails [OF assms(3-5)] by blast
  from fit_sir_step_error [OF assms(1,2) this]
  show "fit_sir solve_ivp root_scalar (t0 # pre @ tnew # rest) T_real gamma population store
         pathtoloc tfmt b_scale = Inl (ValueError ''Problem in bracketing!'')" .
next
  assume a: "k < 9 \<and> (\<forall>j<k. g (fs_b_scale s * 3 ^ j) \<le> 0) \<and> g (fs_b_scale s * 3 ^ k) > 0 \<and>
     root_scalar (fit_func_root solve_ivp (fs_X s) (tnew - fs_t s) B gamma population
                    (Y_real ! Suc (length pre))) 0 (fs_b_scale s * 3 ^ k) = Inr sol \<and>
     \<not> sol_converged sol"
  then have "fit_step solve_ivp root_scalar gamma population store pathtoloc tfmt N Y_real
               (Suc (length pre)) tnew s
             = fit_accept solve_ivp root_scalar gamma population N (Y_real ! Suc (length pre))
                 tnew B 0 (fs_b_scale s * 3 ^ k) s"
    using fit_step_bracket_found [OF assms(3-5)] by blast
  also have "\<dots> = Inl (ValueError ''root finding failed!'')"
    using a by (intro fit_accept_not_converged) blast+
  finally have "fit_step solve_ivp root_scalar gamma population store pathtoloc tfmt N Y_real
               (Suc (length pre)) tnew s = Inl (ValueError ''root finding failed!'')" .
  from fit_sir_step_error [OF assms(1,2) this]
  show "fit_sir solve_ivp root_scalar (t0 # pre @ tnew # rest) T_real gamma population store
         pathtoloc tfmt b_scale = Inl (ValueError ''root finding failed!'')" .
next
  assume a: "k < 9 \<and> (\<forall>j<k. g (fs_b_scale s * 3 ^ j) \<le> 0) \<and> g (fs_b_scale s * 3 ^ k) > 0 \<and>
     root_scalar (fit_func_root solve_ivp (fs_X s) (tnew - fs_t s) B gamma population
                    (Y_real ! Suc (length pre))) 0 (fs_b_scale s * 3 ^ k) = Inl err"
  then have "fit_step solve_ivp root_scalar gamma population store pathtoloc tfmt N Y_real
               (Suc (length pre)) tnew s
             = fit_accept solve_ivp root_scalar gamma population N (Y_real ! Suc (length pre))
                 tnew B 0 (fs_b_scale s * 3 ^ k) s"
    using fit_step_bracket_found [OF assms(3-5)] by blast
  also have "\<dots> = Inl err"
    using a by (intro fit_accept_raises) blast
  finally have "fit_step solve_ivp root_scalar gamma population store pathtoloc tfmt N Y_real
               (Suc (length pre)) tnew s = Inl err" .
  from fit_sir_step_error [OF assms(1,2) this]
  show "fit_sir solve_ivp root_scalar (t0 # pre @ tnew # rest) T_real gamma population store
         pathtoloc tfmt b_scale = Inl err" .
qed

theorem fit_sir_error_values_witness:
  "fit_sir euler_ivp chord_root [3, 4] [[1/100], [1/40]] 0 [1]
     (one_store 3 [[1/10000]]) ''loc'' day_name 1 = Inl (ValueError ''Problem in bracketing!'') \<and>
   fit_sir euler_ivp never_converged [3, 4] [[1/100], [3/200]] 0 [1]
     (one_store 3 [[1/10000]]) ''loc'' day_name 1 = Inl (ValueError ''root finding failed!'') \<and>
   fit_sir euler_ivp chord_root [3, 4] [[1/100], [1/200]] 0 [1]
     (one_store 3 [[1/10000]]) ''loc'' day_name 1
     = Inl (ValueError ''f(a) and f(b) must have different signs'')"
proof -
  let ?g = "\<lambda>y x::real. 1/100 + x * (99/100000000) - y"
  have init: "fit_init 3 [[1/100], [y]] [1] (one_store 3 [[1/10000]]) ''loc'' day_name 1
                = Inr (1, [1/100, y], seed_state 3 1)" for y
    by (simp add: euler_fit_init seed_state_def)
  have pre: "fit_loop euler_ivp rs 0 [1] (one_store 3 [[1/10000]]) ''loc'' day_name 1 [1/100, y] 1 []
               (seed_state 3 1) = Inr (seed_state 3 1)" for y rs
    by simp
  have r: "refresh_B (one_store 3 [[1/10000]]) ''loc'' day_name (fs_t (seed_state 3 1))
             (fs_B (seed_state 3 1)) = Inr [[1/10000]]"
    by (simp add: seed_state_def euler_refresh)
  have i: "Suc (length ([] :: date list)) < length [1/100, y :: real]" for y by simp
  have g: "\<And>b. fit_func_root euler_ivp (fs_X (seed_state 3 1)) (4 - fs_t (seed_state 3 1)) [[1/10000]] 0 [1]
                 ([1/100, y] ! Suc (length ([] :: date list))) b = Inr (?g y b)" for y
    by (simp add: seed_state_def euler_func_root)
  have le9: "\<forall>j<9. ?g (1/40) (fs_b_scale (seed_state 3 1) * 3 ^ j) \<le> 0"
  proof (intro allI impI)
    fix j :: nat assume "j < 9"
    from pow3_le [OF this]
    show "?g (1/40) (fs_b_scale (seed_state 3 1) * 3 ^ j) \<le> 0"
      by (simp add: seed_state_def)
  qed
  have a: "(\<forall>j<9. ?g (1/40) (fs_b_scale (seed_state 3 1) * 3 ^ j) \<le> 0) \<and>
           ?g (1/40) (fs_b_scale (seed_state 3 1) * 3 ^ 8) < 0"
    using le9 by (simp add: seed_state_def)
  have le8: "\<forall>j<8. ?g (3/200) (fs_b_scale (seed_state 3 1) * 3 ^ j) \<le> 0"
  proof (intro allI impI)
    fix j :: nat assume "j < 8"
    then have "(3::real) ^ j \<le> 3 ^ 7" by (intro power_increasing) simp_all
    then show "?g (3/200) (fs_b_scale (seed_state 3 1) * 3 ^ j) \<le> 0"
      by (simp add: seed_state_def)
  qed
  have b: "8 < (9::nat) \<and> (\<forall>j<8. ?g (3/200) (fs_b_scale (seed_state 3 1) * 3 ^ j) \<le> 0) \<and>
           ?g (3/200) (fs_b_scale (seed_state 3 1) * 3 ^ 8) > 0 \<and>
           never_converged (fit_func_root euler_ivp (fs_X (seed_state 3 1))
                (4 - fs_t (seed_state 3 1)) [[1/10000]] 0 [1]
                ([1/100, 3/200] ! Suc (length ([] :: date list))))
              0 (fs_b_scale (seed_state 3 1) * 3 ^ 8)
             = Inr \<lparr>sol_converged = False, sol_root = 0\<rparr> \<and>
           \<not> sol_converged \<lparr>sol_converged = False, sol_root = 0\<rparr>"
    using le8 by (simp add: seed_state_def never_converged_def)
  from fit_sir_error_values [OF init [of "1/40"] pre [of chord_root "1/40"] r i [of "1/40"]
      g [of "1/40"], where k = 0 and rest = "[]"] a
  have "fit_sir euler_ivp chord_root [3, 4] [[1/100], [1/40]] 0 [1]
     (one_store 3 [[1/10000]]) ''loc'' day_name 1 = Inl (ValueError ''Problem in bracketing!'')"
    by simp
  moreover
  from fit_sir_error_values [OF init [of "3/200"] pre [of never_converged "3/200"] r
      i [of "3/200"] g [of "3/200"], where k = 8 and rest = "[]"
      and sol = "\<lparr>sol_converged = False, sol_root = 0\<rparr>"] b
  have "fit_sir euler_ivp never_converged [3, 4] [[1/100], [3/200]] 0 [1]
     (one_store 3 [[1/10000]]) ''loc'' day_name 1 = Inl (ValueError ''root finding failed!'')"
    by simp
  moreover
  have c: "0 < (9::nat) \<and> (\<forall>j<0. ?g (1/200) (fs_b_scale (seed_state 3 1) * 3 ^ j) \<le> 0) \<and>
           ?g (1/200) (fs_b_scale (seed_state 3 1) * 3 ^ 0) > 0 \<and>
           chord_root (fit_func_root euler_ivp (fs_X (seed_state 3 1))
                (4 - fs_t (seed_state 3 1)) [[1/10000]] 0 [1]
                ([1/100, 1/200] ! Suc (length ([] :: date list))))
              0 (fs_b_scale (seed_state 3 1) * 3 ^ 0)
             = Inl (ValueError ''f(a) and f(b) must have different signs'')"
    by (simp add: seed_state_def chord_root_def euler_func_root)
  from fit_sir_error_values [OF init [of "1/200"] pre [of chord_root "1/200"] r
      i [of "1/200"] g [of "1/200"], where k = 0 and rest = "[]"
      and err = "ValueError ''f(a) and f(b) must have different signs''"] c
  have "fit_sir euler_ivp chord_root [3, 4] [[1/100], [1/200]] 0 [1]
     (one_store 3 [[1/10000]]) ''loc'' day_name 1
     = Inl (ValueError ''f(a) and f(b) must have different signs'')"
    by simp
  ultimately show ?thesis by blast
qed

text \<open>
  C9 as stated fails.  Two runs that fail in the bracketing, one on day \<open>3\<close> with the
  scales \<open>1, \<dots>, 3\<^sup>8\<close> and one on day \<open>7\<close> with the scales \<open>1/2, \<dots>, 3\<^sup>8/2\<close>, deliver the same
  error value: it names neither the day nor a bracket value.
\<close>

theorem fit_sir_error_counterexample:
  "fit_sir euler_ivp chord_root [3, 4] [[1/100], [1/40]] 0 [1]
     (one_store 3 [[1/10000]]) ''loc'' day_name 1 = Inl (ValueError ''Problem in bracketing!'') \<and>
   fit_sir euler_ivp chord_root [7, 8] [[1/100], [1/40]] 0 [1]
     (one_store 7 [[1/10000]]) ''loc'' day_name (1/2) = Inl (ValueError ''Problem in bracketing!'')"
proof -
  have "fit_sir euler_ivp chord_root [3, 3 + 1] [[1/100], [1/40]] 0 [1]
     (one_store 3 [[1/10000]]) ''loc'' day_name 1 = Inl (ValueError ''Problem in bracketing!'')"
    by (rule euler_run_fails) simp_all
  moreover have "fit_sir euler_ivp chord_root [7, 7 + 1] [[1/100], [1/40]] 0 [1]
     (one_store 7 [[1/10000]]) ''loc'' day_name (1/2) = Inl (ValueError ''Problem in bracketing!'')"
    by (rule euler_run_fails) simp_all
  ultimately show ?thesis by simp
qed

section \<open>Properties of the day-stepped integration\<close>

lemma days_after_upto: "days_after t dt = [t + 1..t + dt]"
  by (rule nth_equalityI) (simp_all add: days_after_def)

lemma length_arange: "length (arange n) = nat n"
  by (simp add: arange_def)

lemma last_ge_sorted:
  "sorted_wrt (<) (t # us) \<Longrightarrow> (t :: int) \<le> last (t # us)"
proof (induction us arbitrary: t)
  case Nil
  then show ?case by simp
next
  case (Cons u us)
  then have "t < u" and "sorted_wrt (<) (u # us)" by auto
  with Cons.IH [of u] show ?case by simp
qed

lemma integrate_loop_prefix:
  "integrate_loop solve_ivp gamma store pathtoloc tfmt pairs t X B ts Xs = Inr (ts', Xs') \<Longrightarrow>
     \<exists>more. Xs' = Xs @ more"
proof (induction pairs arbitrary: t X B ts Xs)
  case Nil
  then show ?case by simp
next
  case (Cons p rest)
  obtain tnew scale where p: "p = (tnew, scale)" by (cases p)
  from Cons.prems p obtain B' and sol :: ode_result where
    "integrate_loop solve_ivp gamma store pathtoloc tfmt rest tnew (last (sol_y sol)) B'
       (ts @ days_after t (tnew - t)) (Xs @ tl (sol_y sol)) = Inr (ts', Xs')"
    by (auto simp: Let_def split: sum.splits if_splits)
  from Cons.IH [OF this] show ?case by auto
qed

lemma integrate_loop_dates:
  assumes contract: "\<And>f y0 dt te sol. solve_ivp f y0 dt te = Inr sol \<Longrightarrow> sol_success sol \<Longrightarrow>
                       length (sol_y sol) = length te"
  shows "integrate_loop solve_ivp gamma store pathtoloc tfmt pairs t X B ts Xs = Inr (ts', Xs') \<Longrightarrow>
         sorted_wrt (<) (t # map fst pairs) \<Longrightarrow>
         ts' = ts @ [t + 1..last (t # map fst pairs)] \<and>
         length Xs' = length Xs + nat (last (t # map fst pairs) - t)"
proof (induction pairs arbitrary: t X B ts Xs)
  case Nil
  then show ?case by simp
next
  case (Cons p rest)
  obtain tnew scale where p: "p = (tnew, scale)" by (cases p)
  let ?L = "last (tnew # map fst rest)"
  from Cons.prems(2) p have lt: "t < tnew" and srt: "sorted_wrt (<) (tnew # map fst rest)"
    by auto
  from last_ge_sorted [OF srt] have L: "tnew \<le> ?L" .
  from Cons.prems(1) p obtain B' sol where
    sol: "solve_ivp (\<lambda>t X. func_sir_dX t X (smult scale B') gamma) X (real_of_int (tnew - t))
            (arange (tnew - t + 1)) = Inr sol"
    and ok: "sol_success sol" and ne: "sol_y sol \<noteq> []"
    and rec: "integrate_loop solve_ivp gamma store pathtoloc tfmt rest tnew (last (sol_y sol)) B'
                (ts @ days_after t (tnew - t)) (Xs @ tl (sol_y sol)) = Inr (ts', Xs')"
    by (auto simp: Let_def split: sum.splits if_splits)
  from contract [OF sol ok] have len: "length (sol_y sol) = nat (tnew - t + 1)"
    by (simp add: length_arange)
  from Cons.IH [OF rec srt]
  have ts': "ts' = (ts @ days_after t (tnew - t)) @ [tnew + 1..?L]"
    and Xs': "length Xs' = length (Xs @ tl (sol_y sol)) + nat (?L - tnew)"
    by simp_all
  have "[t + 1..?L] = [t + 1..tnew] @ [tnew + 1..?L]"
    using lt L by (intro upto_split2) simp_all
  then have a: "ts' = ts @ [t + 1..?L]"
    using ts' by (simp add: days_after_upto)
  have b: "length Xs' = length Xs + nat (?L - t)"
    using Xs' len lt L by simp
  show ?case using a b p by simp
qed

lemma sir_split_all_shape:
  "sir_split_all Xs N = Inr SIs \<Longrightarrow>
     length SIs = length Xs \<and> (\<forall>si\<in>set SIs. length (fst si) = N \<and> length (snd si) = N)"
proof (induction Xs arbitrary: SIs)
  case Nil
  then show ?case by simp
next
  case (Cons x xs)
  then show ?case
    by (auto simp: sir_X_to_SI_def split: sum.splits if_splits)
qed

text \<open>
  C8.  Let the solver, when it succeeds, return one state per sample time (what
  \<^verbatim>\<open>solve_ivp\<close> does with \<^verbatim>\<open>t_eval\<close>), and let the dates be strictly increasing.  A
  successful run of \<open>integrate_sir\<close> returns the days from \<open>times[0]\<close> to \<open>times[-1]\<close>
  inclusive, one sample per day: \<open>(times[-1] - times[0]).days + 1\<close> dates, strictly
  increasing and starting at \<open>times[0]\<close>, as many rows of \<open>S\<close> and of \<open>I\<close>, each of
  length \<open>N\<close>, where \<open>N\<close> is the size of the matrix of the first day and the initial
  state has \<open>2N\<close> entries.
\<close>

theorem integrate_sir_daily_samples:
  assumes "\<And>f y0 dt te sol. solve_ivp f y0 dt te = Inr sol \<Longrightarrow> sol_success sol \<Longrightarrow>
             length (sol_y sol) = length te"
    and "sorted_wrt (<) times_list"
    and "integrate_sir solve_ivp Xi times_list scales gamma store pathtoloc tfmt = Inr (ts, Ss, Is)"
  shows "times_list \<noteq> [] \<and>
         ts = [hd times_list..last times_list] \<and>
         length ts = nat (last times_list - hd times_list) + 1 \<and>
         sorted_wrt (<) ts \<and> hd ts = hd times_list \<and>
         length Ss = length ts \<and> length Is = length ts \<and>
         (\<exists>B. read_df (hd times_list) tfmt store pathtoloc = Inr B \<and>
              length Xi = 2 * shape0 B \<and>
              (\<forall>S\<in>set Ss. length S = shape0 B) \<and> (\<forall>I\<in>set Is. length I = shape0 B))"
proof -
  from assms(3) obtain t later where tl: "times_list = t # later"
    by (cases times_list) (auto simp: integrate_sir_def)
  from assms(3) tl obtain B ts' Xs SIs where
    B: "read_df t tfmt store pathtoloc = Inr B"
    and len: "length scales = length later"
    and loop: "integrate_loop solve_ivp gamma store pathtoloc tfmt (zip later scales) t Xi B [t] [Xi]
                 = Inr (ts', Xs)"
    and split: "sir_split_all Xs (shape0 B) = Inr SIs"
    and res: "ts = ts'" "Ss = map fst SIs" "Is = map snd SIs"
    by (auto simp: integrate_sir_def Let_def split: sum.splits if_splits)
  have fst: "map fst (zip later scales) = later" using len by simp
  from assms(2) tl have srt: "sorted_wrt (<) (t # map fst (zip later scales))"
    by (simp add: fst)
  from integrate_loop_dates [OF assms(1) loop srt]
  have ts': "ts' = [t] @ [t + 1..last (t # later)]"
    and Xs: "length Xs = 1 + nat (last (t # later) - t)"
    by (simp_all add: fst)
  have L: "t \<le> last (t # later)"
    using last_ge_sorted [of t later] assms(2) tl by simp
  then have up: "[t..last (t # later)] = t # [t + 1..last (t # later)]"
    by (rule upto_rec1)
  have ts_eq: "ts = [hd times_list..last times_list]"
    using ts' up res tl by simp
  from sir_split_all_shape [OF split]
  have S1: "length SIs = length Xs"
    and S2: "\<forall>si\<in>set SIs. length (fst si) = shape0 B \<and> length (snd si) = shape0 B"
    by simp_all
  have lts: "length ts = nat (last times_list - hd times_list) + 1"
    using ts_eq L tl by simp
  have Xi: "length Xi = 2 * shape0 B"
  proof -
    from integrate_loop_prefix [OF loop] have "\<exists>more. Xs = Xi # more"
      by simp
    then show ?thesis using split by (auto simp: sir_X_to_SI_def split: sum.splits if_splits)
  qed
  show ?thesis
    using tl ts_eq lts S1 S2 Xs res B L Xi
    by (auto simp: upto_rec1)
qed


text \<open>The Euler stand-in returns one state per sample time; five days from day \<open>0\<close>
  with the zero matrix give six samples.\<close>

lemma euler_samples_length:
  "euler_samples f t v te = Inr vs \<Longrightarrow> length vs = length te"
  by (induction te arbitrary: t v vs) (auto simp: Let_def split: sum.splits)

lemma euler_ivp_contract:
  "euler_ivp f y0 dt te = Inr sol \<Longrightarrow> sol_success sol \<Longrightarrow> length (sol_y sol) = length te"
  by (auto simp: euler_ivp_def euler_samples_length split: sum.splits)

lemma euler_five_days:
  "integrate_sir euler_ivp [99/100, 1/100] [0, 5] [1] (1/10) (one_store 0 [[0]]) ''loc'' day_name
     = Inr ([0, 1, 2, 3, 4, 5],
            [[99/100], [99/100], [99/100], [99/100], [99/100], [99/100]],
            [[1/100], [9/1000], [81/10000], [729/100000], [6561/1000000], [59049/10000000]])"
proof -
  have u: "[0..5] = [0, 1, 2, 3, 4, 5 :: int]" "[1..5] = [1, 2, 3, 4, 5 :: int]"
    by (simp_all add: upto.simps)
  show ?thesis
    by (simp add: integrate_sir_def read_df_def one_store_def refresh_B_def shape0_def
      arange_def days_after_def euler_ivp_def func_sir_dX_def sir_X_to_SI_def sir_SI_to_X_def
      einsum_i_ij_j_def smult_def Let_def u)
qed

theorem integrate_sir_daily_samples_witness:
  "\<exists>ts Ss Is.
     integrate_sir euler_ivp [99/100, 1/100] [0, 5] [1] (1/10) (one_store 0 [[0]]) ''loc'' day_name
       = Inr (ts, Ss, Is) \<and>
     ts = [0, 1, 2, 3, 4, 5] \<and> length ts = 6 \<and> sorted_wrt (<) ts \<and> hd ts = 0 \<and>
     length Ss = 6 \<and> length Is = 6 \<and>
     list_all (\<lambda>S. length S = 1) Ss \<and> list_all (\<lambda>I. length I = 1) Is"
proof -
  let ?ts = "[0, 1, 2, 3, 4, 5 :: int]"
  let ?Ss = "[[99/100], [99/100], [99/100], [99/100], [99/100], [99/100 :: real]]"
  let ?Is = "[[1/100], [9/1000], [81/10000], [729/100000], [6561/1000000], [59049/10000000 :: real]]"
  have srt: "sorted_wrt (<) [0, 5 :: int]" by simp
  have B: "read_df 0 day_name (one_store 0 [[0]]) ''loc'' = Inr [[0]]"
    by (simp add: read_df_def one_store_def)
  have "[0, 5 :: int] \<noteq> [] \<and>
     ?ts = [hd [0, 5]..last [0, 5]] \<and>
     length ?ts = nat (last [0, 5] - hd [0, 5 :: int]) + 1 \<and>
     sorted_wrt (<) ?ts \<and> hd ?ts = hd [0, 5] \<and>
     length ?Ss = length ?ts \<and> length ?Is = length ?ts \<and>
     (\<exists>B. read_df (hd [0, 5]) day_name (one_store 0 [[0]]) ''loc'' = Inr B \<and>
          length [99/100, 1/100 :: real] = 2 * shape0 B \<and>
          (\<forall>S\<in>set ?Ss. length S = shape0 B) \<and> (\<forall>I\<in>set ?Is. length I = shape0 B))"
  proof (rule integrate_sir_daily_samples [where solve_ivp = euler_ivp])
    show "\<And>f y0 dt te sol. euler_ivp f y0 dt te = Inr sol \<Longrightarrow> sol_success sol \<Longrightarrow>
             length (sol_y sol) = length te"
      by (rule euler_ivp_contract)
    show "sorted_wrt (<) [0, 5 :: int]" by (rule srt)
    show "integrate_sir euler_ivp [99/100, 1/100] [0, 5] [1] (1/10) (one_store 0 [[0]])
            ''loc'' day_name = Inr (?ts, ?Ss, ?Is)"
      by (rule euler_five_days)
  qed
  then have a: "length ?ts = nat (last [0, 5] - hd [0, 5 :: int]) + 1"
    and b: "sorted_wrt (<) ?ts"
    and c: "length ?Ss = length ?ts" "length ?Is = length ?ts"
    by blast+
  from a have a': "length ?ts = 6" by simp
  from c a' have c': "length ?Ss = 6" "length ?Is = 6" by simp_all
  show ?thesis
    by (intro exI [of _ ?ts] exI [of _ ?Ss] exI [of _ ?Is] conjI euler_five_days refl a' b c')
       simp_all
qed

section \<open>The epidemic size as a function of the scale\<close>



























end
